theory Spec2Isabelle
  imports Main "HOL-Library.Word"
begin

unbundle bit_operations_syntax

section \<open>The value decoder of truffle-codec (lib/decode/value.ts)\<close>

text \<open>
  The theory embeds \<^verbatim>\<open>packages/truffle-codec/lib/decode/value.ts\<close>: the padding
  validators, the contract, external-function and internal-function resolvers and the
  dispatcher \<^verbatim>\<open>decodeValue\<close>. A \<^verbatim>\<open>Uint8Array\<close> is a list of 8-bit words. The two
  suspension points of the generator (the delegated \<^verbatim>\<open>read\<close> and the yielded code
  request) are functions supplied by the caller; a \<^verbatim>\<open>throw\<close> is the left injection of a
  sum. The big integers of bn.js are natural numbers and integers; \<^verbatim>\<open>toNumber\<close> throws
  where bn.js does.
\<close>

subsection \<open>Typed arrays: \<^verbatim>\<open>slice\<close>\<close>

type_synonym byte = "8 word"
type_synonym bytes = "byte list"

text \<open>
  An argument of \<^verbatim>\<open>slice\<close> after the conversion ToIntegerOrInfinity. The lengths passed
  by the decoder are integers, apart from \<^verbatim>\<open>bits/8\<close>, which the conversion truncates, and
  \<^verbatim>\<open>Math.log2(0)\<close>, which is minus infinity.
\<close>

datatype index = NegInf | Idx int | PosInf

text \<open>
  \<^verbatim>\<open>TypedArray.prototype.slice\<close>, named \<open>slice_js\<close> here: a negative index counts
  from the end, and both indices are clamped to the array.
\<close>

fun negate :: "index \<Rightarrow> index" where
  "negate NegInf = PosInf"
| "negate (Idx i) = Idx (- i)"
| "negate PosInf = NegInf"

definition relativeIndex :: "nat \<Rightarrow> index \<Rightarrow> nat" where
  "relativeIndex len r =
     (case r of
        NegInf \<Rightarrow> 0
      | PosInf \<Rightarrow> len
      | Idx i \<Rightarrow> if i < 0 then nat (max (int len + i) 0) else min (nat i) len)"

definition slice_js :: "'a list \<Rightarrow> index \<Rightarrow> index \<Rightarrow> 'a list" where
  "slice_js xs start fin =
     (let k = relativeIndex (length xs) start;
          final = relativeIndex (length xs) fin
      in take (final - k) (drop k xs))"

text \<open>\<^verbatim>\<open>slice\<close> with one argument (\<open>sliceFrom\<close>): the end defaults to the length.\<close>

definition sliceFrom :: "'a list \<Rightarrow> index \<Rightarrow> 'a list" where
  "sliceFrom xs start = slice_js xs start PosInf"

subsection \<open>The padding validators\<close>

definition checkPaddingRight :: "bytes \<Rightarrow> index \<Rightarrow> bool" where
  "checkPaddingRight bs len =
     (let padding = sliceFrom bs len
      in list_all (\<lambda>paddingByte. paddingByte = 0) padding)"

definition checkPaddingLeft :: "bytes \<Rightarrow> index \<Rightarrow> bool" where
  "checkPaddingLeft bs len =
     (let padding = slice_js bs (Idx 0) (negate len)
      in list_all (\<lambda>paddingByte. paddingByte = 0) padding)"

text \<open>\<^verbatim>\<open>value[0] & 0x80\<close> of an empty array is \<^verbatim>\<open>undefined & 0x80\<close>, which is 0.\<close>

definition checkPaddingSigned :: "bytes \<Rightarrow> index \<Rightarrow> bool" where
  "checkPaddingSigned bs len =
     (let padding = slice_js bs (Idx 0) (negate len);
          val = sliceFrom bs (negate len);
          signByte = (case val of
                        [] \<Rightarrow> 0x00
                      | v0 # _ \<Rightarrow> if v0 AND 0x80 \<noteq> 0 then 0xff else (0x00 :: byte))
      in list_all (\<lambda>paddingByte. paddingByte = signByte) padding)"

subsection \<open>Constants and conversions of truffle-codec-utils\<close>

text \<open>
  Modelled from the spec: the widths \<^verbatim>\<open>CodecUtils.EVM.ADDRESS_SIZE\<close>,
  \<^verbatim>\<open>SELECTOR_SIZE\<close> and \<^verbatim>\<open>PC_SIZE\<close> are declared in truffle-codec-utils: an address
  has 20 bytes, a selector 4 bytes, a program counter 4 bytes.
\<close>

definition ADDRESS_SIZE :: int where "ADDRESS_SIZE = 20"
definition SELECTOR_SIZE :: int where "SELECTOR_SIZE = 4"
definition PC_SIZE :: int where "PC_SIZE = 4"

text \<open>
  Modelled from the spec: \<^verbatim>\<open>CodecUtils.Conversion.toBN\<close> of a byte array is the
  unsigned big-endian number of the bytes (the "numeric of full bytes").
\<close>

definition toBN :: "bytes \<Rightarrow> nat" where
  "toBN bs = foldl (\<lambda>num b. num * 256 + unat b) 0 bs"

text \<open>
  \<^verbatim>\<open>dataType.bits/8\<close> as a slice argument: the conversion truncates the quotient.
\<close>

definition bitsOver8 :: "nat \<Rightarrow> index" where
  "bitsOver8 bits = Idx (int (bits div 8))"

text \<open>
  \<^verbatim>\<open>Math.ceil(Math.log2(numOptions) / 8)\<close>, with the logarithm taken exactly: the
  least \<open>k\<close> with \<open>numOptions \<le> 256 ^ k\<close>, and minus infinity for no option at all.
\<close>

function ceilLog256 :: "nat \<Rightarrow> nat" where
  "ceilLog256 n = (if n \<le> 1 then 0 else Suc (ceilLog256 ((n + 255) div 256)))"
  by pat_completeness auto
termination
  by (relation "measure (\<lambda>n. n)") auto

declare ceilLog256.simps [simp del]

definition enumNumBytes :: "nat \<Rightarrow> index" where
  "enumNumBytes numOptions =
     (if numOptions = 0 then NegInf else Idx (int (ceilLog256 numOptions)))"

subsection \<open>Types, contexts and the EVM info\<close>

datatype decoderMode = Normal | Permissive | Strict

record contractType =
  type_id :: nat
  typeName :: "string option"
  type_contractKind :: string
  type_payable :: bool

record enumType =
  enum_id :: nat
  options :: "string list option"

datatype visibility = External | Internal

datatype bytesKind = Static nat | Dynamic

text \<open>
  Modelled from the spec: the type descriptor is declared in truffle-codec-utils; its
  classes are the ones \<^verbatim>\<open>decodeValue\<close> switches on, with the fields the decoder reads.
\<close>

datatype dataType =
    BoolType
  | UintType nat
  | IntType nat
  | AddressType
  | ContractType contractType
  | BytesType bytesKind
  | StringType
  | FunctionType visibility
  | EnumType enumType
  | FixedType
  | UfixedType

record abiEntry =
  name :: string

record decoderContext =
  contractName :: "string option"
  contractId :: nat
  contractKind :: string
  payable :: bool
  isConstructor :: bool
  abi :: "(string \<rightharpoonup> abiEntry) option"

record functionEntry =
  entry_name :: string
  entry_contractId :: nat
  entry_contractName :: "string option"
  entry_contractKind :: string
  entry_contractPayable :: bool
  isDesignatedInvalid :: bool

text \<open>
  \<open>'s\<close> is the EVM state and \<open>'u\<close> the registry of user-defined types: both are
  only handed on to the collaborators. \<^verbatim>\<open>info.contexts\<close> is an object; its entries are
  kept in enumeration order.
\<close>

record ('s, 'u) evmInfo =
  state :: 's
  contexts :: "(string \<times> decoderContext) list"
  userDefinedTypes :: 'u
  internalFunctionsTable :: "(nat \<rightharpoonup> functionEntry) option"
  currentContext :: decoderContext

definition Object_values :: "(string \<times> 'v) list \<Rightarrow> 'v list" where
  "Object_values obj = map snd obj"

text \<open>
  The collaborators that value.ts imports or suspends to: \<^verbatim>\<open>read\<close> (it returns the
  bytes or throws a decoding error), the answer to a code request, the conversions
  \<^verbatim>\<open>toHexString\<close>, \<^verbatim>\<open>toAddress\<close> and \<^verbatim>\<open>toSignedBN\<close>, \<^verbatim>\<open>findDecoderContext\<close>,
  \<^verbatim>\<open>contextToType\<close> and \<^verbatim>\<open>Types.fullType\<close> (at its two casts). With them goes
  the engine that runs the code: \<open>argumentLimit\<close> is the largest number of arguments
  it accepts in one call.
\<close>

type_synonym genericError = string

record ('p, 's, 'u) collaborators =
  read :: "'p \<Rightarrow> 's \<Rightarrow> genericError + bytes"
  codeAt :: "string \<Rightarrow> bytes"
  toHexString :: "bytes \<Rightarrow> string"
  toAddress :: "bytes \<Rightarrow> string"
  toSignedBN :: "bytes \<Rightarrow> int"
  findDecoderContext :: "(string \<times> decoderContext) list \<Rightarrow> string \<Rightarrow> decoderContext option"
  contextToType :: "decoderContext \<Rightarrow> contractType"
  fullTypeContract :: "contractType \<Rightarrow> 'u \<Rightarrow> contractType"
  fullTypeEnum :: "enumType \<Rightarrow> 'u \<Rightarrow> enumType"
  argumentLimit :: nat

subsection \<open>Values and error results\<close>

datatype contractValueInfo =
    ContractValueInfoKnown string contractType
  | ContractValueInfoUnknown string

datatype functionExternalValueInfo =
    FunctionExternalValueInfoKnown contractValueInfo string string
  | FunctionExternalValueInfoInvalid contractValueInfo string
  | FunctionExternalValueInfoUnknown contractValueInfo string

datatype functionInternalValueInfo =
    FunctionInternalValueInfoKnown contractType nat nat string contractType
  | FunctionInternalValueInfoException contractType nat nat
  | FunctionInternalValueInfoUnknown contractType nat nat

datatype decoderError =
    BoolPaddingError string
  | BoolOutOfRangeError nat
  | UintPaddingError string
  | IntPaddingError string
  | AddressPaddingError string
  | ContractPaddingError string
  | BytesPaddingError string
  | FunctionExternalNonStackPaddingError string
  | FunctionInternalPaddingError string
  | MalformedInternalFunctionError contractType nat
  | DeployedFunctionInConstructorError contractType nat
  | NoSuchInternalFunctionError contractType nat nat
  | EnumNotFoundDecodingError enumType nat
  | EnumPaddingError enumType string
  | EnumOutOfRangeError enumType nat
  | FixedPointNotYetSupportedError string

text \<open>
  A JavaScript string is a sequence of 16-bit code units. \<open>GenericErrorResult\<close> is
  what \<^verbatim>\<open>Values.makeGenericErrorResult\<close> builds from the type and the error of a
  failed read.
\<close>

datatype result =
    BoolValue dataType bool
  | UintValue dataType nat
  | IntValue dataType int
  | AddressValue dataType string
  | ContractValue contractType contractValueInfo
  | BytesValue dataType string
  | StringValue dataType "16 word list"
  | FunctionExternalValue dataType functionExternalValueInfo
  | FunctionInternalValue dataType functionInternalValueInfo
  | EnumValue enumType nat string
  | BoolErrorResult dataType decoderError
  | UintErrorResult dataType decoderError
  | IntErrorResult dataType decoderError
  | AddressErrorResult dataType decoderError
  | ContractErrorResult dataType decoderError
  | BytesErrorResult dataType decoderError
  | FunctionExternalErrorResult dataType decoderError
  | FunctionInternalErrorResult dataType decoderError
  | EnumErrorResult enumType decoderError
  | FixedErrorResult dataType decoderError
  | UfixedErrorResult dataType decoderError
  | GenericErrorResult dataType genericError

text \<open>
  What the code throws: the abort of strict mode, the TypeError of a property read on
  \<^verbatim>\<open>undefined\<close>, the RangeError of a call with too many arguments, and the failed
  assertion of bn.js.
\<close>

datatype thrown = StopDecodingError | TypeError | RangeError | AssertionError

text \<open>
  \<^verbatim>\<open>BN.prototype.toNumber\<close>: a number of more than 53 bits fails the assertion
  "Number can only safely store up to 53 bits".
\<close>

definition toNumber :: "nat \<Rightarrow> thrown + nat" where
  "toNumber n = (if n < 2 ^ 53 then Inr n else Inl AssertionError)"

subsection \<open>The contract and function resolvers\<close>

definition decodeContract ::
  "('p, 's, 'u) collaborators \<Rightarrow> bytes \<Rightarrow> ('s, 'u) evmInfo \<Rightarrow> contractValueInfo" where
  "decodeContract u addressBytes info =
     (let address = toAddress u addressBytes;
          codeBytes = codeAt u address;
          code = toHexString u codeBytes;
          context = findDecoderContext u (contexts info) code
      in case context of
           None \<Rightarrow> ContractValueInfoUnknown address
         | Some c \<Rightarrow>
             if contractName c \<noteq> None
             then ContractValueInfoKnown address (contextToType u c)
             else ContractValueInfoUnknown address)"

text \<open>
  When no context has the identity of the resolved contract, \<^verbatim>\<open>find\<close> returns
  \<^verbatim>\<open>undefined\<close> and the access \<^verbatim>\<open>context.abi\<close> throws a TypeError.
\<close>

definition decodeExternalFunction ::
  "('p, 's, 'u) collaborators \<Rightarrow> bytes \<Rightarrow> bytes \<Rightarrow> ('s, 'u) evmInfo
     \<Rightarrow> thrown + functionExternalValueInfo" where
  "decodeExternalFunction u addressBytes selectorBytes info =
     (let contract = decodeContract u addressBytes info;
          selector = toHexString u selectorBytes
      in case contract of
           ContractValueInfoUnknown _ \<Rightarrow>
             Inr (FunctionExternalValueInfoUnknown contract selector)
         | ContractValueInfoKnown _ cls \<Rightarrow>
             (let cId = type_id cls
              in case find (\<lambda>context. contractId context = cId)
                        (Object_values (contexts info)) of
                   None \<Rightarrow> Inl TypeError
                 | Some context \<Rightarrow>
                     (let abiLookup = (case abi context of
                                         Some a \<Rightarrow> a selector
                                       | None \<Rightarrow> None)
                      in case abiLookup of
                           None \<Rightarrow> Inr (FunctionExternalValueInfoInvalid contract selector)
                         | Some abiEntry \<Rightarrow>
                             Inr (FunctionExternalValueInfoKnown contract selector
                                    (name abiEntry)))))"

text \<open>
  Both program counters are converted with \<^verbatim>\<open>toNumber\<close> before any case is tested;
  \<open>context\<close> is the contract type built from the current context.
\<close>

definition decodeInternalFunction ::
  "dataType \<Rightarrow> bytes \<Rightarrow> bytes \<Rightarrow> ('s, 'u) evmInfo \<Rightarrow> thrown + result" where
  "decodeInternalFunction dataType deployedPcBytes constructorPcBytes info =
     (case toNumber (toBN deployedPcBytes) of
        Inl e \<Rightarrow> Inl e
      | Inr deployedPc \<Rightarrow>
     (case toNumber (toBN constructorPcBytes) of
        Inl e \<Rightarrow> Inl e
      | Inr constructorPc \<Rightarrow>
     (let context =
            \<lparr> type_id = contractId (currentContext info),
              typeName = contractName (currentContext info),
              type_contractKind = contractKind (currentContext info),
              type_payable = payable (currentContext info) \<rparr>
      in case internalFunctionsTable info of
           None \<Rightarrow>
             Inr (FunctionInternalValue dataType
               (FunctionInternalValueInfoUnknown context deployedPc constructorPc))
         | Some table \<Rightarrow>
             if deployedPc = 0 \<and> constructorPc = 0 then
               Inr (FunctionInternalValue dataType
                 (FunctionInternalValueInfoException context deployedPc constructorPc))
             else if deployedPc = 0 \<and> constructorPc \<noteq> 0 then
               Inr (FunctionInternalErrorResult dataType
                 (MalformedInternalFunctionError context constructorPc))
             else if isConstructor (currentContext info) \<and> constructorPc = 0 then
               Inr (FunctionInternalErrorResult dataType
                 (DeployedFunctionInConstructorError context deployedPc))
             else
               (let pc = (if isConstructor (currentContext info)
                          then constructorPc else deployedPc)
                in case table pc of
                     None \<Rightarrow>
                       Inr (FunctionInternalErrorResult dataType
                         (NoSuchInternalFunctionError context deployedPc constructorPc))
                   | Some functionEntry \<Rightarrow>
                       if isDesignatedInvalid functionEntry then
                         Inr (FunctionInternalValue dataType
                           (FunctionInternalValueInfoException context deployedPc
                              constructorPc))
                       else
                         (let definedIn =
                                \<lparr> type_id = entry_contractId functionEntry,
                                  typeName = entry_contractName functionEntry,
                                  type_contractKind = entry_contractKind functionEntry,
                                  type_payable = entry_contractPayable functionEntry \<rparr>
                          in Inr (FunctionInternalValue dataType
                               (FunctionInternalValueInfoKnown context deployedPc constructorPc
                                  (entry_name functionEntry) definedIn)))))))"

subsection \<open>The dispatcher\<close>

text \<open>
  \<^verbatim>\<open>String.fromCharCode.apply(undefined, bytes)\<close>: every byte is one argument of the
  call, which throws a RangeError when there are more than the engine accepts;
  otherwise each byte becomes the code unit of the same value.
\<close>

definition fromCharCode :: "nat \<Rightarrow> bytes \<Rightarrow> thrown + 16 word list" where
  "fromCharCode limit bs =
     (if limit < length bs then Inl RangeError else Inr (map ucast bs))"

definition decodeValue ::
  "('p, 's, 'u) collaborators \<Rightarrow> dataType \<Rightarrow> 'p \<Rightarrow> ('s, 'u) evmInfo \<Rightarrow> decoderMode
     \<Rightarrow> thrown + result" where
  "decodeValue u dataType pointer info mode =
     (let permissivePadding = (mode = Permissive);
          strict = (mode = Strict)
      in case read u pointer (state info) of
           Inl error \<Rightarrow>
             if strict then Inl StopDecodingError
             else Inr (GenericErrorResult dataType error)
         | Inr bs \<Rightarrow>
            (case dataType of
               BoolType \<Rightarrow>
                 if \<not> checkPaddingLeft bs (Idx 1) then
                   if strict then Inl StopDecodingError
                   else Inr (BoolErrorResult dataType (BoolPaddingError (toHexString u bs)))
                 else
                   (let numeric = toBN bs
                    in if numeric = 0 then Inr (BoolValue dataType False)
                       else if numeric = 1 then Inr (BoolValue dataType True)
                       else if strict then Inl StopDecodingError
                       else Inr (BoolErrorResult dataType (BoolOutOfRangeError numeric)))
             | UintType bits \<Rightarrow>
                 if \<not> permissivePadding \<and> \<not> checkPaddingLeft bs (bitsOver8 bits) then
                   if strict then Inl StopDecodingError
                   else Inr (UintErrorResult dataType (UintPaddingError (toHexString u bs)))
                 else
                   Inr (UintValue dataType (toBN (sliceFrom bs (negate (bitsOver8 bits)))))
             | IntType bits \<Rightarrow>
                 if \<not> permissivePadding \<and> \<not> checkPaddingSigned bs (bitsOver8 bits) then
                   if strict then Inl StopDecodingError
                   else Inr (IntErrorResult dataType (IntPaddingError (toHexString u bs)))
                 else
                   Inr (IntValue dataType
                          (toSignedBN u (sliceFrom bs (negate (bitsOver8 bits)))))
             | AddressType \<Rightarrow>
                 if \<not> permissivePadding \<and> \<not> checkPaddingLeft bs (Idx ADDRESS_SIZE) then
                   if strict then Inl StopDecodingError
                   else Inr (AddressErrorResult dataType
                               (AddressPaddingError (toHexString u bs)))
                 else Inr (AddressValue dataType (toAddress u bs))
             | ContractType ct \<Rightarrow>
                 if \<not> permissivePadding \<and> \<not> checkPaddingLeft bs (Idx ADDRESS_SIZE) then
                   if strict then Inl StopDecodingError
                   else Inr (ContractErrorResult dataType
                               (ContractPaddingError (toHexString u bs)))
                 else
                   (let fullType = fullTypeContract u ct (userDefinedTypes info);
                        contractValueInfo = decodeContract u bs info
                    in Inr (ContractValue fullType contractValueInfo))
             | BytesType kind \<Rightarrow>
                 (case kind of
                    Static len \<Rightarrow>
                      if \<not> permissivePadding \<and> \<not> checkPaddingRight bs (Idx (int len)) then
                        if strict then Inl StopDecodingError
                        else Inr (BytesErrorResult dataType
                                    (BytesPaddingError (toHexString u bs)))
                      else
                        Inr (BytesValue dataType
                               (toHexString u (slice_js bs (Idx 0) (Idx (int len)))))
                  | Dynamic \<Rightarrow> Inr (BytesValue dataType (toHexString u bs)))
             | StringType \<Rightarrow>
                 (case fromCharCode (argumentLimit u) bs of
                    Inl e \<Rightarrow> Inl e
                  | Inr str \<Rightarrow> Inr (StringValue dataType str))
             | FunctionType vis \<Rightarrow>
                 (case vis of
                    External \<Rightarrow>
                      if \<not> checkPaddingRight bs (Idx (ADDRESS_SIZE + SELECTOR_SIZE)) then
                        if strict then Inl StopDecodingError
                        else Inr (FunctionExternalErrorResult dataType
                                    (FunctionExternalNonStackPaddingError (toHexString u bs)))
                      else
                        (let address = slice_js bs (Idx 0) (Idx ADDRESS_SIZE);
                             selector = slice_js bs (Idx ADDRESS_SIZE)
                                          (Idx (ADDRESS_SIZE + SELECTOR_SIZE))
                         in case decodeExternalFunction u address selector info of
                              Inl e \<Rightarrow> Inl e
                            | Inr valueInfo \<Rightarrow> Inr (FunctionExternalValue dataType valueInfo))
                  | Internal \<Rightarrow>
                      if \<not> checkPaddingLeft bs (Idx (2 * PC_SIZE)) then
                        if strict then Inl StopDecodingError
                        else Inr (FunctionInternalErrorResult dataType
                                    (FunctionInternalPaddingError (toHexString u bs)))
                      else
                        (let deployedPc = sliceFrom bs (Idx (- PC_SIZE));
                             constructorPc = slice_js bs (Idx (- PC_SIZE * 2)) (Idx (- PC_SIZE))
                         in decodeInternalFunction dataType deployedPc constructorPc info))
             | EnumType et \<Rightarrow>
                 (let numeric = toBN bs;
                      fullType = fullTypeEnum u et (userDefinedTypes info)
                  in case options fullType of
                       None \<Rightarrow>
                         if strict then Inl StopDecodingError
                         else Inr (EnumErrorResult fullType
                                     (EnumNotFoundDecodingError fullType numeric))
                     | Some opts \<Rightarrow>
                         (let numOptions = length opts;
                              numBytes = enumNumBytes numOptions
                          in if \<not> checkPaddingLeft bs numBytes then
                               if strict then Inl StopDecodingError
                               else Inr (EnumErrorResult fullType
                                           (EnumPaddingError fullType (toHexString u bs)))
                             else if numeric < numOptions then
                               Inr (EnumValue fullType numeric (opts ! numeric))
                             else if strict then Inl StopDecodingError
                             else Inr (EnumErrorResult fullType
                                         (EnumOutOfRangeError fullType numeric))))
             | FixedType \<Rightarrow>
                 (let hex = toHexString u bs
                  in if strict then Inl StopDecodingError
                     else Inr (FixedErrorResult dataType (FixedPointNotYetSupportedError hex)))
             | UfixedType \<Rightarrow>
                 (let hex = toHexString u bs
                  in if strict then Inl StopDecodingError
                     else Inr (UfixedErrorResult dataType
                                 (FixedPointNotYetSupportedError hex)))))"

subsection \<open>Classifying results\<close>

fun isValue :: "result \<Rightarrow> bool" where
  "isValue (BoolValue _ _) = True"
| "isValue (UintValue _ _) = True"
| "isValue (IntValue _ _) = True"
| "isValue (AddressValue _ _) = True"
| "isValue (ContractValue _ _) = True"
| "isValue (BytesValue _ _) = True"
| "isValue (StringValue _ _) = True"
| "isValue (FunctionExternalValue _ _) = True"
| "isValue (FunctionInternalValue _ _) = True"
| "isValue (EnumValue _ _ _) = True"
| "isValue _ = False"

fun errorOf :: "result \<Rightarrow> decoderError option" where
  "errorOf (BoolErrorResult _ e) = Some e"
| "errorOf (UintErrorResult _ e) = Some e"
| "errorOf (IntErrorResult _ e) = Some e"
| "errorOf (AddressErrorResult _ e) = Some e"
| "errorOf (ContractErrorResult _ e) = Some e"
| "errorOf (BytesErrorResult _ e) = Some e"
| "errorOf (FunctionExternalErrorResult _ e) = Some e"
| "errorOf (FunctionInternalErrorResult _ e) = Some e"
| "errorOf (EnumErrorResult _ e) = Some e"
| "errorOf (FixedErrorResult _ e) = Some e"
| "errorOf (UfixedErrorResult _ e) = Some e"
| "errorOf _ = None"

fun isPaddingError :: "decoderError \<Rightarrow> bool" where
  "isPaddingError (BoolPaddingError _) = True"
| "isPaddingError (UintPaddingError _) = True"
| "isPaddingError (IntPaddingError _) = True"
| "isPaddingError (AddressPaddingError _) = True"
| "isPaddingError (ContractPaddingError _) = True"
| "isPaddingError (BytesPaddingError _) = True"
| "isPaddingError (FunctionExternalNonStackPaddingError _) = True"
| "isPaddingError (FunctionInternalPaddingError _) = True"
| "isPaddingError (EnumPaddingError _ _) = True"
| "isPaddingError _ = False"

definition isPaddingErrorResult :: "result \<Rightarrow> bool" where
  "isPaddingErrorResult r = (case errorOf r of Some e \<Rightarrow> isPaddingError e | None \<Rightarrow> False)"

text \<open>The three errors that only the internal function resolver raises.\<close>

fun isResolverError :: "decoderError \<Rightarrow> bool" where
  "isResolverError (MalformedInternalFunctionError _ _) = True"
| "isResolverError (DeployedFunctionInConstructorError _ _) = True"
| "isResolverError (NoSuchInternalFunctionError _ _ _) = True"
| "isResolverError _ = False"

definition isResolverErrorResult :: "result \<Rightarrow> bool" where
  "isResolverErrorResult r = (case errorOf r of Some e \<Rightarrow> isResolverError e | None \<Rightarrow> False)"

fun isExceptionValue :: "result \<Rightarrow> bool" where
  "isExceptionValue (FunctionInternalValue _ (FunctionInternalValueInfoException _ _ _)) = True"
| "isExceptionValue _ = False"

text \<open>An error result of any class, also the generic one of a failed read.\<close>

fun isErrorResult :: "result \<Rightarrow> bool" where
  "isErrorResult (BoolErrorResult _ _) = True"
| "isErrorResult (UintErrorResult _ _) = True"
| "isErrorResult (IntErrorResult _ _) = True"
| "isErrorResult (AddressErrorResult _ _) = True"
| "isErrorResult (ContractErrorResult _ _) = True"
| "isErrorResult (BytesErrorResult _ _) = True"
| "isErrorResult (FunctionExternalErrorResult _ _) = True"
| "isErrorResult (FunctionInternalErrorResult _ _) = True"
| "isErrorResult (EnumErrorResult _ _) = True"
| "isErrorResult (FixedErrorResult _ _) = True"
| "isErrorResult (UfixedErrorResult _ _) = True"
| "isErrorResult (GenericErrorResult _ _) = True"
| "isErrorResult _ = False"

text \<open>
  The type classes whose padding check is guarded by \<^verbatim>\<open>!permissivePadding\<close> in
  \<^verbatim>\<open>decodeValue\<close>.
\<close>

fun permissiveClass :: "dataType \<Rightarrow> bool" where
  "permissiveClass (UintType _) = True"
| "permissiveClass (IntType _) = True"
| "permissiveClass AddressType = True"
| "permissiveClass (ContractType _) = True"
| "permissiveClass (BytesType _) = True"
| "permissiveClass _ = False"

text \<open>
  What \<^verbatim>\<open>decodeExternalFunction\<close> relies on when it dereferences the context it
  finds: a contract that \<^verbatim>\<open>findDecoderContext\<close> and \<^verbatim>\<open>contextToType\<close> resolve has
  a context of its identity in \<^verbatim>\<open>info.contexts\<close>.
\<close>

definition registryConsistent ::
  "('p, 's, 'u) collaborators \<Rightarrow> ('s, 'u) evmInfo \<Rightarrow> bool" where
  "registryConsistent u info =
     (\<forall>code c. findDecoderContext u (contexts info) code = Some c \<longrightarrow>
        (\<exists>c' \<in> set (Object_values (contexts info)).
           contractId c' = type_id (contextToType u c)))"

subsection \<open>Example inputs\<close>

definition hexDigit :: "nat \<Rightarrow> char" where
  "hexDigit n = ''0123456789abcdef'' ! n"

definition hexOf :: "bytes \<Rightarrow> string" where
  "hexOf bs = ''0x'' @ concat (map (\<lambda>b. [hexDigit (unat b div 16), hexDigit (unat b mod 16)]) bs)"

definition tokenContext :: decoderContext where
  "tokenContext =
     \<lparr> contractName = Some ''Token'', contractId = 7, contractKind = ''contract'',
       payable = False, isConstructor = False,
       abi = Some [''0xa9059cbb'' \<mapsto> \<lparr> name = ''transfer'' \<rparr>] \<rparr>"

text \<open>
  Collaborators for the examples: the read returns the given bytes, the account
  \<open>0x..11\<close> holds the code \<open>0x6080\<close>, the registry is searched by the code, and the
  engine accepts 125000 arguments in a call.
\<close>

definition exampleCollaborators :: "bytes \<Rightarrow> (unit, unit, unit) collaborators" where
  "exampleCollaborators bs =
     \<lparr> read = (\<lambda>_ _. Inr bs),
       codeAt = (\<lambda>address. if address = hexOf (replicate 19 0 @ [0x11])
                            then [0x60, 0x80] else []),
       toHexString = hexOf,
       toAddress = (\<lambda>a. hexOf (sliceFrom a (Idx (- 20)))),
       toSignedBN = (\<lambda>b. case b of
                             [] \<Rightarrow> 0
                           | b0 # _ \<Rightarrow> if b0 AND 0x80 \<noteq> 0
                                       then int (toBN b) - 256 ^ length b
                                       else int (toBN b)),
       findDecoderContext = (\<lambda>ctxs code. map_of ctxs code),
       contextToType = (\<lambda>c. \<lparr> type_id = contractId c, typeName = contractName c,
                               type_contractKind = contractKind c,
                               type_payable = payable c \<rparr>),
       fullTypeContract = (\<lambda>t _. t),
       fullTypeEnum = (\<lambda>t _. t),
       argumentLimit = 125000 \<rparr>"

definition exampleInfo :: "(unit, unit) evmInfo" where
  "exampleInfo =
     \<lparr> state = (), contexts = [(''0x6080'', tokenContext)], userDefinedTypes = (),
       internalFunctionsTable = None, currentContext = tokenContext \<rparr>"

definition transferEntry :: functionEntry where
  "transferEntry =
     \<lparr> entry_name = ''_transfer'', entry_contractId = 7,
       entry_contractName = Some ''Token'', entry_contractKind = ''contract'',
       entry_contractPayable = False, isDesignatedInvalid = False \<rparr>"

definition exampleInfoWithTable :: "(unit, unit) evmInfo" where
  "exampleInfoWithTable =
     exampleInfo \<lparr> internalFunctionsTable := Some [5 \<mapsto> transferEntry] \<rparr>"

definition oneOptionEnum :: enumType where
  "oneOptionEnum = \<lparr> enum_id = 3, options = Some [''Only''] \<rparr>"


section \<open>Properties\<close>

lemma toBN_zeros4: "toBN [0, 0, 0, 0] = 0"
  by (simp add: toBN_def)

lemma toBN_snoc: "toBN (bs @ [b]) = toBN bs * 256 + unat b"
  by (simp add: toBN_def)

lemma toBN_bound: "toBN bs < 256 ^ length bs"
proof (induction bs rule: rev_induct)
  case Nil
  show ?case by (simp add: toBN_def)
next
  case (snoc b bs)
  have "unat b < 256"
    using unsigned_less [of b] by simp
  with snoc have "toBN bs * 256 + unat b < 256 ^ length bs * 256"
    by simp
  then show ?case
    by (simp add: toBN_snoc mult.commute)
qed

lemma toBN_four_bytes: "length bs \<le> 4 \<Longrightarrow> toBN bs < 2 ^ 53"
proof -
  assume "length bs \<le> 4"
  then have "(256 :: nat) ^ length bs \<le> 256 ^ 4"
    by (intro power_increasing) simp_all
  with toBN_bound [of bs] have "toBN bs < 256 ^ 4"
    by (rule less_le_trans)
  then show ?thesis by simp
qed

lemma decodeInternalFunction_overflow:
  "2 ^ 53 \<le> toBN d \<or> 2 ^ 53 \<le> toBN c \<Longrightarrow>
   decodeInternalFunction dataType d c info = Inl AssertionError"
  by (auto simp add: decodeInternalFunction_def toNumber_def)

text \<open>
  Claim C3. For program counters that \<^verbatim>\<open>toNumber\<close> converts,
  \<^verbatim>\<open>decodeInternalFunction\<close> decides in this order: without a table the result is the
  Unknown value with the contract type of the current context (its id, name, kind and
  payability) and both program counters; then both counters zero give the Exception
  value; a zero deployed counter with a nonzero constructor counter gives the Malformed
  error; a constructor context with a zero constructor counter gives the
  DeployedFunctionInConstructor error; otherwise the table is read at the constructor
  counter in a constructor context and at the deployed counter elsewhere: no entry is the
  NoSuchInternalFunction error, a designated-invalid entry the Exception value, any other
  entry the Known value with its name and defining contract.
\<close>

theorem decodeInternalFunction_precedence:
  "toBN d < 2 ^ 53 \<and> toBN c < 2 ^ 53 \<longrightarrow>
   (let context =
          \<lparr> type_id = contractId (currentContext info),
            typeName = contractName (currentContext info),
            type_contractKind = contractKind (currentContext info),
            type_payable = payable (currentContext info) \<rparr>
    in
   (internalFunctionsTable info = None \<longrightarrow>
      decodeInternalFunction dataType d c info =
        Inr (FunctionInternalValue dataType
               (FunctionInternalValueInfoUnknown context (toBN d) (toBN c))))
   \<and> (internalFunctionsTable info = Some table \<and> toBN d = 0 \<and> toBN c = 0 \<longrightarrow>
      decodeInternalFunction dataType d c info =
        Inr (FunctionInternalValue dataType
               (FunctionInternalValueInfoException context (toBN d) (toBN c))))
   \<and> (internalFunctionsTable info = Some table \<and> toBN d = 0 \<and> toBN c \<noteq> 0 \<longrightarrow>
      decodeInternalFunction dataType d c info =
        Inr (FunctionInternalErrorResult dataType
               (MalformedInternalFunctionError context (toBN c))))
   \<and> (internalFunctionsTable info = Some table \<and> toBN d \<noteq> 0
        \<and> isConstructor (currentContext info) \<and> toBN c = 0 \<longrightarrow>
      decodeInternalFunction dataType d c info =
        Inr (FunctionInternalErrorResult dataType
               (DeployedFunctionInConstructorError context (toBN d))))
   \<and> (internalFunctionsTable info = Some table \<and> toBN d \<noteq> 0
        \<and> \<not> (isConstructor (currentContext info) \<and> toBN c = 0)
        \<and> pc = (if isConstructor (currentContext info) then toBN c else toBN d) \<longrightarrow>
      (table pc = None \<longrightarrow>
         decodeInternalFunction dataType d c info =
           Inr (FunctionInternalErrorResult dataType
                  (NoSuchInternalFunctionError context (toBN d) (toBN c))))
      \<and> (\<forall>entry. table pc = Some entry \<and> isDesignatedInvalid entry \<longrightarrow>
           decodeInternalFunction dataType d c info =
             Inr (FunctionInternalValue dataType
                    (FunctionInternalValueInfoException context (toBN d) (toBN c))))
      \<and> (\<forall>entry. table pc = Some entry \<and> \<not> isDesignatedInvalid entry \<longrightarrow>
           decodeInternalFunction dataType d c info =
             Inr (FunctionInternalValue dataType
                    (FunctionInternalValueInfoKnown context (toBN d) (toBN c)
                       (entry_name entry)
                       \<lparr> type_id = entry_contractId entry,
                         typeName = entry_contractName entry,
                         type_contractKind = entry_contractKind entry,
                         type_payable = entry_contractPayable entry \<rparr>)))))"
  by (auto simp add: decodeInternalFunction_def toNumber_def Let_def)

text \<open>
  Claim C1, amended. With a table configured, a pointer whose two program counters are
  zero decodes to the Exception value whatever the table holds: the table is not read.
  With no table configured the same pointer decodes to the Unknown value.
\<close>

theorem null_pointer_with_table:
  "toBN d = 0 \<and> toBN c = 0 \<longrightarrow>
     decodeInternalFunction dataType d c (info \<lparr> internalFunctionsTable := Some table \<rparr>) =
       Inr (FunctionInternalValue dataType
              (FunctionInternalValueInfoException
                 \<lparr> type_id = contractId (currentContext info),
                   typeName = contractName (currentContext info),
                   type_contractKind = contractKind (currentContext info),
                   type_payable = payable (currentContext info) \<rparr> 0 0))
     \<and> decodeInternalFunction dataType d c (info \<lparr> internalFunctionsTable := None \<rparr>) =
       Inr (FunctionInternalValue dataType
              (FunctionInternalValueInfoUnknown
                 \<lparr> type_id = contractId (currentContext info),
                   typeName = contractName (currentContext info),
                   type_contractKind = contractKind (currentContext info),
                   type_payable = payable (currentContext info) \<rparr> 0 0))"
  by (simp add: decodeInternalFunction_def toNumber_def Let_def)

text \<open>
  Claim C1 as stated fails: with no table the pair (0,0) is the Unknown value, not the
  Exception value.
\<close>

theorem null_pointer_without_table:
  "toBN [0, 0, 0, 0] = 0
   \<and> internalFunctionsTable exampleInfo = None
   \<and> decodeInternalFunction (FunctionType Internal) [0, 0, 0, 0] [0, 0, 0, 0] exampleInfo =
       Inr (FunctionInternalValue (FunctionType Internal)
              (FunctionInternalValueInfoUnknown
                 \<lparr> type_id = 7, typeName = Some ''Token'', type_contractKind = ''contract'',
                   type_payable = False \<rparr> 0 0))
   \<and> \<not> isExceptionValue
         (FunctionInternalValue (FunctionType Internal)
            (FunctionInternalValueInfoUnknown
               \<lparr> type_id = 7, typeName = Some ''Token'', type_contractKind = ''contract'',
                 type_payable = False \<rparr> 0 0))"
  by (simp add: decodeInternalFunction_def toNumber_def Let_def toBN_zeros4 exampleInfo_def
      tokenContext_def)

lemma toBN_examples:
  "toBN [0, 0, 0, 5] = 5" "toBN [0, 0, 0, 6] = 6" "toBN [0, 0, 0, 7] = 7" "toBN [0, 0, 0, 9] = 9"
  by (simp_all add: toBN_def)

text \<open>
  Claim C1, amended, at the pointer (0,0) with and without the example table.
\<close>

theorem null_pointer_with_table_witness:
  "toBN [0, 0, 0, 0] = 0
   \<and> decodeInternalFunction (FunctionType Internal) [0, 0, 0, 0] [0, 0, 0, 0] exampleInfoWithTable =
       Inr (FunctionInternalValue (FunctionType Internal)
              (FunctionInternalValueInfoException
                 \<lparr> type_id = 7, typeName = Some ''Token'', type_contractKind = ''contract'',
                   type_payable = False \<rparr> 0 0))
   \<and> decodeInternalFunction (FunctionType Internal) [0, 0, 0, 0] [0, 0, 0, 0] exampleInfo =
       Inr (FunctionInternalValue (FunctionType Internal)
              (FunctionInternalValueInfoUnknown
                 \<lparr> type_id = 7, typeName = Some ''Token'', type_contractKind = ''contract'',
                   type_payable = False \<rparr> 0 0))"
proof -
  have z: "toBN [0, 0, 0, 0] = 0 \<and> toBN [0, 0, 0, 0] = 0"
    by (simp add: toBN_zeros4)
  have e: "exampleInfo \<lparr> internalFunctionsTable := None \<rparr> = exampleInfo"
    by (simp add: exampleInfo_def)
  from null_pointer_with_table [where d = "[0, 0, 0, 0]" and c = "[0, 0, 0, 0]"
      and info = exampleInfo and table = "[5 \<mapsto> transferEntry]"
      and dataType = "FunctionType Internal", rule_format, OF z]
  show ?thesis
    by (simp add: z e exampleInfoWithTable_def exampleInfo_def tokenContext_def)
qed


text \<open>
  Claim C3 at one example pointer for each of its seven outcomes.
\<close>

theorem decodeInternalFunction_precedence_witness:
  "decodeInternalFunction (FunctionType Internal) [0, 0, 0, 5] [0, 0, 0, 0]
       exampleInfo =
     Inr (FunctionInternalValue (FunctionType Internal)
          (FunctionInternalValueInfoUnknown 
         \<lparr> type_id = 7, typeName = Some ''Token'', type_contractKind = ''contract'',
            type_payable = False \<rparr> 5 0))
   \<and> decodeInternalFunction (FunctionType Internal) [0, 0, 0, 0] [0, 0, 0, 0]
       exampleInfoWithTable =
     Inr (FunctionInternalValue (FunctionType Internal)
          (FunctionInternalValueInfoException 
         \<lparr> type_id = 7, typeName = Some ''Token'', type_contractKind = ''contract'',
            type_payable = False \<rparr> 0 0))
   \<and> decodeInternalFunction (FunctionType Internal) [0, 0, 0, 0] [0, 0, 0, 7]
       exampleInfoWithTable =
     Inr (FunctionInternalErrorResult (FunctionType Internal)
          (MalformedInternalFunctionError 
         \<lparr> type_id = 7, typeName = Some ''Token'', type_contractKind = ''contract'',
            type_payable = False \<rparr> 7))
   \<and> decodeInternalFunction (FunctionType Internal) [0, 0, 0, 5] [0, 0, 0, 0]
       (exampleInfoWithTable \<lparr> currentContext := tokenContext \<lparr> isConstructor := True \<rparr> \<rparr>) =
     Inr (FunctionInternalErrorResult (FunctionType Internal)
          (DeployedFunctionInConstructorError 
         \<lparr> type_id = 7, typeName = Some ''Token'', type_contractKind = ''contract'',
            type_payable = False \<rparr> 5))
   \<and> decodeInternalFunction (FunctionType Internal) [0, 0, 0, 6] [0, 0, 0, 0]
       exampleInfoWithTable =
     Inr (FunctionInternalErrorResult (FunctionType Internal)
          (NoSuchInternalFunctionError 
         \<lparr> type_id = 7, typeName = Some ''Token'', type_contractKind = ''contract'',
            type_payable = False \<rparr> 6 0))
   \<and> decodeInternalFunction (FunctionType Internal) [0, 0, 0, 9] [0, 0, 0, 0]
       (exampleInfo \<lparr> internalFunctionsTable :=
          Some [9 \<mapsto> transferEntry \<lparr> isDesignatedInvalid := True \<rparr>] \<rparr>) =
     Inr (FunctionInternalValue (FunctionType Internal)
          (FunctionInternalValueInfoException 
         \<lparr> type_id = 7, typeName = Some ''Token'', type_contractKind = ''contract'',
            type_payable = False \<rparr> 9 0))
   \<and> decodeInternalFunction (FunctionType Internal) [0, 0, 0, 5] [0, 0, 0, 0]
       exampleInfoWithTable =
     Inr (FunctionInternalValue (FunctionType Internal)
          (FunctionInternalValueInfoKnown 
         \<lparr> type_id = 7, typeName = Some ''Token'', type_contractKind = ''contract'',
            type_payable = False \<rparr> 5 0 ''_transfer'' 
         \<lparr> type_id = 7, typeName = Some ''Token'', type_contractKind = ''contract'',
            type_payable = False \<rparr>))"
proof -
  let ?tok = "\<lparr> type_id = 7, typeName = Some ''Token'', type_contractKind = ''contract'',
            type_payable = False \<rparr>"
  note P = decodeInternalFunction_precedence [where dataType = "FunctionType Internal"]
  note ev = toBN_zeros4 toBN_examples exampleInfo_def exampleInfoWithTable_def
    tokenContext_def transferEntry_def Let_def
  have c1: "decodeInternalFunction (FunctionType Internal) [0, 0, 0, 5] [0, 0, 0, 0]
       exampleInfo =
     Inr (FunctionInternalValue (FunctionType Internal)
          (FunctionInternalValueInfoUnknown ?tok 5 0))"
    using P [where info = "exampleInfo" and d = "[0, 0, 0, 5]" and c = "[0, 0, 0, 0]"]
    by (simp add: ev)
  have c2: "decodeInternalFunction (FunctionType Internal) [0, 0, 0, 0] [0, 0, 0, 0]
       exampleInfoWithTable =
     Inr (FunctionInternalValue (FunctionType Internal)
          (FunctionInternalValueInfoException ?tok 0 0))"
    using P [where info = "exampleInfoWithTable" and d = "[0, 0, 0, 0]" and c = "[0, 0, 0, 0]"
        and table = "[5 \<mapsto> transferEntry]"]
    by (simp add: ev)
  have c3: "decodeInternalFunction (FunctionType Internal) [0, 0, 0, 0] [0, 0, 0, 7]
       exampleInfoWithTable =
     Inr (FunctionInternalErrorResult (FunctionType Internal)
          (MalformedInternalFunctionError ?tok 7))"
    using P [where info = "exampleInfoWithTable" and d = "[0, 0, 0, 0]" and c = "[0, 0, 0, 7]"
        and table = "[5 \<mapsto> transferEntry]"]
    by (simp add: ev)
  have c4: "decodeInternalFunction (FunctionType Internal) [0, 0, 0, 5] [0, 0, 0, 0]
       (exampleInfoWithTable \<lparr> currentContext := tokenContext \<lparr> isConstructor := True \<rparr> \<rparr>) =
     Inr (FunctionInternalErrorResult (FunctionType Internal)
          (DeployedFunctionInConstructorError ?tok 5))"
    using P [where info = "exampleInfoWithTable \<lparr> currentContext := tokenContext \<lparr> isConstructor := True \<rparr> \<rparr>" and d = "[0, 0, 0, 5]" and c = "[0, 0, 0, 0]"
        and table = "[5 \<mapsto> transferEntry]"]
    by (simp add: ev)
  have c5: "decodeInternalFunction (FunctionType Internal) [0, 0, 0, 6] [0, 0, 0, 0]
       exampleInfoWithTable =
     Inr (FunctionInternalErrorResult (FunctionType Internal)
          (NoSuchInternalFunctionError ?tok 6 0))"
    using P [where info = "exampleInfoWithTable" and d = "[0, 0, 0, 6]" and c = "[0, 0, 0, 0]"
        and table = "[5 \<mapsto> transferEntry]" and pc = 6]
    by (simp add: ev)
  have c6: "decodeInternalFunction (FunctionType Internal) [0, 0, 0, 9] [0, 0, 0, 0]
       (exampleInfo \<lparr> internalFunctionsTable :=
          Some [9 \<mapsto> transferEntry \<lparr> isDesignatedInvalid := True \<rparr>] \<rparr>) =
     Inr (FunctionInternalValue (FunctionType Internal)
          (FunctionInternalValueInfoException ?tok 9 0))"
    using P [where info = "exampleInfo \<lparr> internalFunctionsTable :=
          Some [9 \<mapsto> transferEntry \<lparr> isDesignatedInvalid := True \<rparr>] \<rparr>" and d = "[0, 0, 0, 9]" and c = "[0, 0, 0, 0]"
        and table = "[9 \<mapsto> transferEntry \<lparr> isDesignatedInvalid := True \<rparr>]" and pc = 9]
    by (simp add: ev)
  have c7: "decodeInternalFunction (FunctionType Internal) [0, 0, 0, 5] [0, 0, 0, 0]
       exampleInfoWithTable =
     Inr (FunctionInternalValue (FunctionType Internal)
          (FunctionInternalValueInfoKnown ?tok 5 0 ''_transfer'' ?tok))"
    using P [where info = "exampleInfoWithTable" and d = "[0, 0, 0, 5]" and c = "[0, 0, 0, 0]"
        and table = "[5 \<mapsto> transferEntry]" and pc = 5]
    by (simp add: ev)
  from c1 c2 c3 c4 c5 c6 c7 show ?thesis by blast
qed

text \<open>
  Claim C5. \<^verbatim>\<open>decodeExternalFunction\<close>: an Unknown contract gives the Unknown outcome
  with the contract info and the selector; a Known contract whose context (the first of
  the registry with its identity) has no ABI entry at the selector gives the Invalid
  outcome; with an entry it gives the Known outcome with the contract info, the selector
  and the entry's name. \<^verbatim>\<open>decodeValue\<close> wraps each outcome in a
  \<open>FunctionExternalValue\<close>, which is a value and not an error result.
\<close>

theorem decodeExternalFunction_outcomes:
  "(decodeContract u a info = ContractValueInfoUnknown addr \<longrightarrow>
      decodeExternalFunction u a s info =
        Inr (FunctionExternalValueInfoUnknown (ContractValueInfoUnknown addr) (toHexString u s)))
   \<and> (decodeContract u a info = ContractValueInfoKnown addr cls
        \<and> find (\<lambda>context. contractId context = type_id cls) (Object_values (contexts info))
            = Some ctx
        \<and> (abi ctx = None \<or> (abi ctx = Some t \<and> t (toHexString u s) = None)) \<longrightarrow>
      decodeExternalFunction u a s info =
        Inr (FunctionExternalValueInfoInvalid (ContractValueInfoKnown addr cls)
               (toHexString u s)))
   \<and> (decodeContract u a info = ContractValueInfoKnown addr cls
        \<and> find (\<lambda>context. contractId context = type_id cls) (Object_values (contexts info))
            = Some ctx
        \<and> abi ctx = Some t \<and> t (toHexString u s) = Some entry \<longrightarrow>
      decodeExternalFunction u a s info =
        Inr (FunctionExternalValueInfoKnown (ContractValueInfoKnown addr cls)
               (toHexString u s) (name entry)))
   \<and> (read u p (state info) = Inr bs
        \<and> checkPaddingRight bs (Idx (ADDRESS_SIZE + SELECTOR_SIZE))
        \<and> decodeExternalFunction u (slice_js bs (Idx 0) (Idx ADDRESS_SIZE))
            (slice_js bs (Idx ADDRESS_SIZE) (Idx (ADDRESS_SIZE + SELECTOR_SIZE))) info = Inr v \<longrightarrow>
      decodeValue u (FunctionType External) p info mode =
        Inr (FunctionExternalValue (FunctionType External) v)
      \<and> isValue (FunctionExternalValue (FunctionType External) v)
      \<and> \<not> isErrorResult (FunctionExternalValue (FunctionType External) v))"
  by (auto simp add: decodeExternalFunction_def decodeValue_def Let_def)

lemma hexOf_examples:
  "hexOf [] = ''0x''"
  "hexOf [0x60, 0x80] = ''0x6080''"
  "hexOf [0xa9, 0x05, 0x9c, 0xbb] = ''0xa9059cbb''"
  "hexOf [0x12, 0x34, 0x56, 0x78] = ''0x12345678''"
  by (simp_all add: hexOf_def hexDigit_def)

lemma hexOf_addresses:
  "hexOf (replicate 19 0 @ [0x11]) = ''0x0000000000000000000000000000000000000011''"
  "hexOf (replicate 19 0 @ [0x22]) = ''0x0000000000000000000000000000000000000022''"
  by code_simp+

lemma sliceFrom_last20: "length a = 20 \<Longrightarrow> sliceFrom a (Idx (- 20)) = a"
  by (simp add: sliceFrom_def slice_js_def relativeIndex_def)


lemma decodeContract_token:
  "decodeContract (exampleCollaborators bs) (replicate 19 0 @ [0x11]) exampleInfo =
     ContractValueInfoKnown ''0x0000000000000000000000000000000000000011''
       \<lparr> type_id = 7, typeName = Some ''Token'', type_contractKind = ''contract'',
         type_payable = False \<rparr>"
  by (simp add: decodeContract_def exampleCollaborators_def exampleInfo_def tokenContext_def
      sliceFrom_last20 hexOf_addresses hexOf_examples)

lemma decodeContract_other:
  "decodeContract (exampleCollaborators bs) (replicate 19 0 @ [0x22]) exampleInfo =
     ContractValueInfoUnknown ''0x0000000000000000000000000000000000000022''"
  by (simp add: decodeContract_def exampleCollaborators_def exampleInfo_def
      sliceFrom_last20 hexOf_addresses hexOf_examples)


lemma find_token:
  "find (\<lambda>context. contractId context = 7) (Object_values (contexts exampleInfo)) = Some tokenContext"
  by (simp add: Object_values_def exampleInfo_def tokenContext_def)


lemma externalBytes_slices:
  "checkPaddingRight (replicate 19 0 @ [0x11, 0x12, 0x34, 0x56, 0x78] @ replicate 8 0)
     (Idx (ADDRESS_SIZE + SELECTOR_SIZE))"
  "slice_js (replicate 19 0 @ [0x11, 0x12, 0x34, 0x56, 0x78] @ replicate 8 0) (Idx 0) (Idx ADDRESS_SIZE)
     = replicate 19 (0 :: byte) @ [0x11]"
  "slice_js (replicate 19 0 @ [0x11, 0x12, 0x34, 0x56, 0x78] @ replicate 8 0) (Idx ADDRESS_SIZE)
     (Idx (ADDRESS_SIZE + SELECTOR_SIZE)) = [0x12, 0x34, 0x56, 0x78 :: byte]"
  by code_simp+


text \<open>
  Claim C5 at the example registry: an account without known code, the Token contract
  with a selector outside its ABI, the Token contract with the selector of
  \<open>transfer\<close>, and the second of these through \<^verbatim>\<open>decodeValue\<close>.
\<close>

theorem decodeExternalFunction_outcomes_witness:
  "decodeExternalFunction (exampleCollaborators []) (replicate 19 0 @ [0x22])
       [0xa9, 0x05, 0x9c, 0xbb] exampleInfo =
     Inr (FunctionExternalValueInfoUnknown
            (ContractValueInfoUnknown ''0x0000000000000000000000000000000000000022'')
            ''0xa9059cbb'')
   \<and> decodeExternalFunction (exampleCollaborators []) (replicate 19 0 @ [0x11])
       [0x12, 0x34, 0x56, 0x78] exampleInfo =
     Inr (FunctionExternalValueInfoInvalid
            (ContractValueInfoKnown ''0x0000000000000000000000000000000000000011''
               \<lparr> type_id = 7, typeName = Some ''Token'', type_contractKind = ''contract'',
                 type_payable = False \<rparr>)
            ''0x12345678'')
   \<and> decodeExternalFunction (exampleCollaborators []) (replicate 19 0 @ [0x11])
       [0xa9, 0x05, 0x9c, 0xbb] exampleInfo =
     Inr (FunctionExternalValueInfoKnown
            (ContractValueInfoKnown ''0x0000000000000000000000000000000000000011''
               \<lparr> type_id = 7, typeName = Some ''Token'', type_contractKind = ''contract'',
                 type_payable = False \<rparr>)
            ''0xa9059cbb'' ''transfer'')
   \<and> decodeValue
       (exampleCollaborators (replicate 19 0 @ [0x11, 0x12, 0x34, 0x56, 0x78] @ replicate 8 0))
       (FunctionType External) () exampleInfo Strict =
     Inr (FunctionExternalValue (FunctionType External)
            (FunctionExternalValueInfoInvalid
               (ContractValueInfoKnown ''0x0000000000000000000000000000000000000011''
                  \<lparr> type_id = 7, typeName = Some ''Token'', type_contractKind = ''contract'',
                    type_payable = False \<rparr>)
               ''0x12345678''))"
proof -
  let ?cls = "\<lparr> type_id = 7, typeName = Some ''Token'', type_contractKind = ''contract'',
      type_payable = False \<rparr>"
  let ?bs = "replicate 19 0 @ [0x11, 0x12, 0x34, 0x56, 0x78] @ replicate 8 (0 :: byte)"
  let ?tok = "replicate 19 0 @ [0x11 :: byte]"
  let ?addr = "''0x0000000000000000000000000000000000000011''"
  let ?t = "[''0xa9059cbb'' \<mapsto> \<lparr> name = ''transfer'' \<rparr>]"
  have hex: "toHexString (exampleCollaborators bs) = hexOf" for bs
    by (simp add: exampleCollaborators_def)
  have abiT: "abi tokenContext = Some ?t"
    by (simp add: tokenContext_def)
  have miss: "?t (hexOf [0x12, 0x34, 0x56, 0x78]) = None"
    by (simp add: hexOf_examples)
  have hit: "?t (hexOf [0xa9, 0x05, 0x9c, 0xbb]) = Some \<lparr> name = ''transfer'' \<rparr>"
    by (simp add: hexOf_examples)
  have rd: "read (exampleCollaborators ?bs) () (state exampleInfo) = Inr ?bs"
    by (simp add: exampleCollaborators_def)
  have ft: "find (\<lambda>context. contractId context = type_id ?cls)
      (Object_values (contexts exampleInfo)) = Some tokenContext"
    using find_token by simp
  have 1: "decodeExternalFunction (exampleCollaborators []) (replicate 19 0 @ [0x22])
       [0xa9, 0x05, 0x9c, 0xbb] exampleInfo =
     Inr (FunctionExternalValueInfoUnknown
            (ContractValueInfoUnknown ''0x0000000000000000000000000000000000000022'')
            (toHexString (exampleCollaborators []) [0xa9, 0x05, 0x9c, 0xbb]))"
    using decodeExternalFunction_outcomes [where u = "exampleCollaborators []"
        and a = "replicate 19 0 @ [0x22]" and info = exampleInfo
        and s = "[0xa9, 0x05, 0x9c, 0xbb]"
        and addr = "''0x0000000000000000000000000000000000000022''", THEN conjunct1]
      decodeContract_other [of "[]"]
    by (rule mp)
  have inv: "decodeExternalFunction (exampleCollaborators bs) ?tok
       [0x12, 0x34, 0x56, 0x78] exampleInfo =
     Inr (FunctionExternalValueInfoInvalid (ContractValueInfoKnown ?addr ?cls)
            (toHexString (exampleCollaborators bs) [0x12, 0x34, 0x56, 0x78]))" for bs
  proof -
    have h: "decodeContract (exampleCollaborators bs) ?tok exampleInfo =
          ContractValueInfoKnown ?addr ?cls
        \<and> find (\<lambda>context. contractId context = type_id ?cls)
            (Object_values (contexts exampleInfo)) = Some tokenContext
        \<and> (abi tokenContext = None \<or> (abi tokenContext = Some ?t
            \<and> ?t (toHexString (exampleCollaborators bs) [0x12, 0x34, 0x56, 0x78]) = None))"
      using decodeContract_token [of bs] ft abiT miss by (simp only: hex simp_thms)
    from decodeExternalFunction_outcomes [where u = "exampleCollaborators bs"
        and a = "?tok" and info = exampleInfo and s = "[0x12, 0x34, 0x56, 0x78]"
        and addr = "?addr" and cls = "?cls" and ctx = tokenContext and t = "?t",
        THEN conjunct2, THEN conjunct1] h
    show ?thesis by (rule mp)
  qed
  have 3: "decodeExternalFunction (exampleCollaborators []) ?tok
       [0xa9, 0x05, 0x9c, 0xbb] exampleInfo =
     Inr (FunctionExternalValueInfoKnown (ContractValueInfoKnown ?addr ?cls)
            (toHexString (exampleCollaborators []) [0xa9, 0x05, 0x9c, 0xbb])
            (name \<lparr> name = ''transfer'' \<rparr>))"
  proof -
    have h: "decodeContract (exampleCollaborators []) ?tok exampleInfo =
          ContractValueInfoKnown ?addr ?cls
        \<and> find (\<lambda>context. contractId context = type_id ?cls)
            (Object_values (contexts exampleInfo)) = Some tokenContext
        \<and> abi tokenContext = Some ?t
        \<and> ?t (toHexString (exampleCollaborators []) [0xa9, 0x05, 0x9c, 0xbb])
            = Some \<lparr> name = ''transfer'' \<rparr>"
      using decodeContract_token [of "[]"] ft abiT hit by (simp only: hex simp_thms)
    from decodeExternalFunction_outcomes [where u = "exampleCollaborators []"
        and a = "?tok" and info = exampleInfo and s = "[0xa9, 0x05, 0x9c, 0xbb]"
        and addr = "?addr" and cls = "?cls" and ctx = tokenContext and t = "?t"
        and entry = "\<lparr> name = ''transfer'' \<rparr>",
        THEN conjunct2, THEN conjunct2, THEN conjunct1] h
    show ?thesis by (rule mp)
  qed
  have 4: "decodeValue (exampleCollaborators ?bs) (FunctionType External) () exampleInfo Strict =
     Inr (FunctionExternalValue (FunctionType External)
            (FunctionExternalValueInfoInvalid (ContractValueInfoKnown ?addr ?cls)
               (toHexString (exampleCollaborators ?bs) [0x12, 0x34, 0x56, 0x78])))"
  proof -
    have h: "read (exampleCollaborators ?bs) () (state exampleInfo) = Inr ?bs
        \<and> checkPaddingRight ?bs (Idx (ADDRESS_SIZE + SELECTOR_SIZE))
        \<and> decodeExternalFunction (exampleCollaborators ?bs) (slice_js ?bs (Idx 0) (Idx ADDRESS_SIZE))
            (slice_js ?bs (Idx ADDRESS_SIZE) (Idx (ADDRESS_SIZE + SELECTOR_SIZE))) exampleInfo
            = Inr (FunctionExternalValueInfoInvalid (ContractValueInfoKnown ?addr ?cls)
               (toHexString (exampleCollaborators ?bs) [0x12, 0x34, 0x56, 0x78]))"
      using rd externalBytes_slices(1) inv [of ?bs]
      by (simp only: externalBytes_slices(2,3) simp_thms)
    from decodeExternalFunction_outcomes [where u = "exampleCollaborators ?bs"
        and info = exampleInfo and p = "()" and mode = Strict and bs = "?bs"
        and v = "FunctionExternalValueInfoInvalid (ContractValueInfoKnown ?addr ?cls)
               (toHexString (exampleCollaborators ?bs) [0x12, 0x34, 0x56, 0x78])",
        THEN conjunct2, THEN conjunct2, THEN conjunct2] h
    have "decodeValue (exampleCollaborators ?bs) (FunctionType External) () exampleInfo Strict =
        Inr (FunctionExternalValue (FunctionType External)
          (FunctionExternalValueInfoInvalid (ContractValueInfoKnown ?addr ?cls)
               (toHexString (exampleCollaborators ?bs) [0x12, 0x34, 0x56, 0x78])))
      \<and> isValue (FunctionExternalValue (FunctionType External)
          (FunctionExternalValueInfoInvalid (ContractValueInfoKnown ?addr ?cls)
               (toHexString (exampleCollaborators ?bs) [0x12, 0x34, 0x56, 0x78])))
      \<and> \<not> isErrorResult (FunctionExternalValue (FunctionType External)
          (FunctionExternalValueInfoInvalid (ContractValueInfoKnown ?addr ?cls)
               (toHexString (exampleCollaborators ?bs) [0x12, 0x34, 0x56, 0x78])))"
      by (rule mp)
    then show ?thesis by (rule conjunct1)
  qed
  from 1 inv [of "[]"] 3 4 show ?thesis
    by (simp only: hex hexOf_examples abiEntry.simps simp_thms)
qed

lemma unat_ucast_byte: "unat (ucast (b :: byte) :: 16 word) = unat b"
proof -
  have "unat b < 2 ^ 8"
    using unsigned_less [of b] by simp
  then have "unat b < 2 ^ 16"
    by simp
  then show ?thesis
    by (simp add: unsigned_ucast_eq take_bit_nat_eq_self)
qed

lemma checkPaddingLeft_zero: "checkPaddingLeft bs (Idx 0)"
  by (simp add: checkPaddingLeft_def slice_js_def relativeIndex_def)

lemma ceilLog256_one: "ceilLog256 1 = 0"
  by (simp add: ceilLog256.simps)

lemma enumNumBytes_one: "enumNumBytes (Suc 0) = Idx 0"
  using ceilLog256_one by (simp add: enumNumBytes_def)

lemma decodeValue_uint:
  "read u p (state info) = Inr bs \<Longrightarrow>
   decodeValue u (UintType bits) p info mode =
     (if mode \<noteq> Permissive \<and> \<not> checkPaddingLeft bs (bitsOver8 bits)
      then if mode = Strict then Inl StopDecodingError
           else Inr (UintErrorResult (UintType bits) (UintPaddingError (toHexString u bs)))
      else Inr (UintValue (UintType bits) (toBN (sliceFrom bs (negate (bitsOver8 bits))))))"
  by (simp add: decodeValue_def)

lemma decodeValue_bool:
  "read u p (state info) = Inr bs \<Longrightarrow>
   decodeValue u BoolType p info mode =
     (if \<not> checkPaddingLeft bs (Idx 1)
      then if mode = Strict then Inl StopDecodingError
           else Inr (BoolErrorResult BoolType (BoolPaddingError (toHexString u bs)))
      else if toBN bs = 0 then Inr (BoolValue BoolType False)
      else if toBN bs = 1 then Inr (BoolValue BoolType True)
      else if mode = Strict then Inl StopDecodingError
      else Inr (BoolErrorResult BoolType (BoolOutOfRangeError (toBN bs))))"
  by (simp add: decodeValue_def Let_def)

lemma decodeValue_enum:
  "read u p (state info) = Inr bs \<Longrightarrow>
   fullTypeEnum u et (userDefinedTypes info) = ft \<Longrightarrow>
   options ft = Some opts \<Longrightarrow>
   decodeValue u (EnumType et) p info mode =
     (if \<not> checkPaddingLeft bs (enumNumBytes (length opts))
      then if mode = Strict then Inl StopDecodingError
           else Inr (EnumErrorResult ft (EnumPaddingError ft (toHexString u bs)))
      else if toBN bs < length opts then Inr (EnumValue ft (toBN bs) (opts ! toBN bs))
      else if mode = Strict then Inl StopDecodingError
      else Inr (EnumErrorResult ft (EnumOutOfRangeError ft (toBN bs))))"
  by (simp add: decodeValue_def Let_def)

lemma uint8_inputs:
  "checkPaddingLeft (replicate 31 0 @ [0xFF]) (bitsOver8 8)"
  "toBN (sliceFrom (replicate 31 0 @ [0xFF]) (negate (bitsOver8 8))) = 255"
  "\<not> checkPaddingLeft (replicate 30 0 @ [0x01, 0xFF]) (bitsOver8 8)"
  "toBN (sliceFrom (replicate 30 0 @ [0x01, 0xFF]) (negate (bitsOver8 8))) = 255"
  by code_simp+

lemma bool_inputs:
  "checkPaddingLeft (replicate 31 0 @ [0x02]) (Idx 1)"
  "toBN (replicate 31 0 @ [0x02]) = 2"
  by code_simp+

lemma enum_inputs:
  "toBN (replicate 31 0 @ [0x01]) = 1"
  "toBN (replicate 32 0) = 0"
  by code_simp+

text \<open>
  Claim C6. A uint8 read from 31 zero bytes and 0xFF is \<open>UintValue 255\<close> in every
  mode. Read from 30 zero bytes, 0x01 and 0xFF it is a \<open>UintPaddingError\<close> in normal
  mode and the abort in strict mode; in permissive mode it is \<open>UintValue 255\<close>, from
  the last byte alone.
\<close>

theorem uint8_examples:
  "(read u p (state info) = Inr (replicate 31 0 @ [0xFF]) \<longrightarrow>
      decodeValue u (UintType 8) p info mode = Inr (UintValue (UintType 8) 255))
   \<and> (read u p (state info) = Inr (replicate 30 0 @ [0x01, 0xFF]) \<longrightarrow>
      decodeValue u (UintType 8) p info Normal =
        Inr (UintErrorResult (UintType 8)
               (UintPaddingError (toHexString u (replicate 30 0 @ [0x01, 0xFF]))))
      \<and> decodeValue u (UintType 8) p info Strict = Inl StopDecodingError
      \<and> decodeValue u (UintType 8) p info Permissive = Inr (UintValue (UintType 8) 255))"
  by (simp add: decodeValue_uint uint8_inputs)

text \<open>
  Claim C7. A bool read from 31 zero bytes and 0x02 passes the padding check and has the
  number 2: the result is the \<open>BoolOutOfRangeError\<close> in normal and in permissive mode,
  and strict mode aborts in its place.
\<close>

theorem bool_two_out_of_range:
  "read u p (state info) = Inr (replicate 31 0 @ [0x02]) \<longrightarrow>
     checkPaddingLeft (replicate 31 0 @ [0x02]) (Idx 1)
     \<and> toBN (replicate 31 0 @ [0x02]) = 2
     \<and> decodeValue u BoolType p info Normal =
         Inr (BoolErrorResult BoolType (BoolOutOfRangeError 2))
     \<and> decodeValue u BoolType p info Permissive =
         Inr (BoolErrorResult BoolType (BoolOutOfRangeError 2))
     \<and> decodeValue u BoolType p info Strict = Inl StopDecodingError"
  by (simp add: decodeValue_bool bool_inputs)

lemma decodeValue_string:
  "read u p (state info) = Inr bs \<Longrightarrow>
   decodeValue u StringType p info mode =
     (if argumentLimit u < length bs then Inl RangeError
      else Inr (StringValue StringType (map ucast bs)))"
  by (simp add: decodeValue_def fromCharCode_def)

text \<open>
  Within the engine's limit a string decodes to a \<open>StringValue\<close> in every mode: the
  text has one code unit for each byte, of the same value; there is no padding check and
  no validation.
\<close>

lemma string_within_limit:
  "read u p (state info) = Inr bs \<Longrightarrow> length bs \<le> argumentLimit u \<Longrightarrow>
   \<exists>str. decodeValue u StringType p info mode = Inr (StringValue StringType str)
     \<and> length str = length bs
     \<and> (\<forall>i < length bs. unat (str ! i) = unat (bs ! i))"
  by (simp add: decodeValue_string unat_ucast_byte)

text \<open>
  Claim C9. A fixed or ufixed type decodes to the \<open>FixedPointNotYetSupportedError\<close>
  for all bytes in normal and permissive mode, and strict mode aborts; no padding
  check is made.
\<close>

theorem fixed_not_yet_supported:
  "read u p (state info) = Inr bs \<longrightarrow>
     decodeValue u FixedType p info mode =
       (if mode = Strict then Inl StopDecodingError
        else Inr (FixedErrorResult FixedType
                    (FixedPointNotYetSupportedError (toHexString u bs))))
     \<and> decodeValue u UfixedType p info mode =
       (if mode = Strict then Inl StopDecodingError
        else Inr (UfixedErrorResult UfixedType
                    (FixedPointNotYetSupportedError (toHexString u bs))))"
  by (simp add: decodeValue_def Let_def)

text \<open>
  Claim C10, amended. For an enum of one option the padding width is 0 and
  \<^verbatim>\<open>checkPaddingLeft\<close> holds for all bytes, so no mode gives an
  \<open>EnumPaddingError\<close>: the result is the \<open>EnumValue\<close> when the number of the bytes
  is 0; otherwise it is the \<open>EnumOutOfRangeError\<close> in normal and permissive mode and
  the abort in strict mode.
\<close>

theorem one_option_enum:
  "read u p (state info) = Inr bs
   \<and> fullTypeEnum u et (userDefinedTypes info) = ft
   \<and> options ft = Some [opt] \<longrightarrow>
     enumNumBytes (length [opt]) = Idx 0
     \<and> checkPaddingLeft bs (enumNumBytes (length [opt]))
     \<and> decodeValue u (EnumType et) p info mode =
         (if toBN bs = 0 then Inr (EnumValue ft 0 opt)
          else if mode = Strict then Inl StopDecodingError
          else Inr (EnumErrorResult ft (EnumOutOfRangeError ft (toBN bs))))
     \<and> (\<forall>r. decodeValue u (EnumType et) p info mode = Inr r \<longrightarrow> \<not> isPaddingErrorResult r)"
  by (auto simp add: decodeValue_enum enumNumBytes_one checkPaddingLeft_zero
      isPaddingErrorResult_def)

text \<open>
  Claim C10 as stated fails in strict mode: with the number 1 the decode of a one-option
  enum aborts and returns no \<open>EnumOutOfRangeError\<close>.
\<close>

theorem one_option_enum_strict_abort:
  "options (fullTypeEnum (exampleCollaborators (replicate 31 0 @ [0x01])) oneOptionEnum
      (userDefinedTypes exampleInfo)) = Some [''Only'']
   \<and> toBN (replicate 31 0 @ [0x01]) = 1
   \<and> decodeValue (exampleCollaborators (replicate 31 0 @ [0x01])) (EnumType oneOptionEnum) ()
       exampleInfo Strict = Inl StopDecodingError
   \<and> decodeValue (exampleCollaborators (replicate 31 0 @ [0x01])) (EnumType oneOptionEnum) ()
       exampleInfo Strict \<noteq>
         Inr (EnumErrorResult oneOptionEnum (EnumOutOfRangeError oneOptionEnum 1))"
proof -
  have rd: "read (exampleCollaborators (replicate 31 0 @ [0x01])) () (state exampleInfo)
      = Inr (replicate 31 0 @ [0x01])"
    by (simp add: exampleCollaborators_def)
  have ft: "fullTypeEnum (exampleCollaborators (replicate 31 0 @ [0x01])) oneOptionEnum
      (userDefinedTypes exampleInfo) = oneOptionEnum"
    by (simp add: exampleCollaborators_def)
  have op: "options oneOptionEnum = Some [''Only'']"
    by (simp add: oneOptionEnum_def)
  from decodeValue_enum [OF rd ft op, of Strict] ft op show ?thesis
    by (simp add: enum_inputs enumNumBytes_one checkPaddingLeft_zero)
qed


lemma read_example: "read (exampleCollaborators bs) p s = Inr bs"
  by (simp add: exampleCollaborators_def)

lemma toHexString_example: "toHexString (exampleCollaborators bs) = hexOf"
  by (simp add: exampleCollaborators_def)

lemma fullTypeEnum_example:
  "fullTypeEnum (exampleCollaborators bs) et udts = et"
  by (simp add: exampleCollaborators_def)

text \<open>
  Claim C6 at the example collaborators, for both inputs and the three modes.
\<close>

theorem uint8_examples_witness:
  "decodeValue (exampleCollaborators (replicate 31 0 @ [0xFF])) (UintType 8) () exampleInfo Normal
     = Inr (UintValue (UintType 8) 255)
   \<and> decodeValue (exampleCollaborators (replicate 31 0 @ [0xFF])) (UintType 8) () exampleInfo
       Permissive = Inr (UintValue (UintType 8) 255)
   \<and> decodeValue (exampleCollaborators (replicate 31 0 @ [0xFF])) (UintType 8) () exampleInfo
       Strict = Inr (UintValue (UintType 8) 255)
   \<and> decodeValue (exampleCollaborators (replicate 30 0 @ [0x01, 0xFF])) (UintType 8) ()
       exampleInfo Normal =
         Inr (UintErrorResult (UintType 8)
                (UintPaddingError (hexOf (replicate 30 0 @ [0x01, 0xFF]))))
   \<and> decodeValue (exampleCollaborators (replicate 30 0 @ [0x01, 0xFF])) (UintType 8) ()
       exampleInfo Strict = Inl StopDecodingError
   \<and> decodeValue (exampleCollaborators (replicate 30 0 @ [0x01, 0xFF])) (UintType 8) ()
       exampleInfo Permissive = Inr (UintValue (UintType 8) 255)"
proof -
  let ?good = "replicate 31 0 @ [0xFF :: byte]"
  let ?bad = "replicate 30 0 @ [0x01, 0xFF :: byte]"
  note T = uint8_examples [where p = "()" and info = exampleInfo]
  have g: "decodeValue (exampleCollaborators ?good) (UintType 8) () exampleInfo mode
      = Inr (UintValue (UintType 8) 255)" for mode
    using T [where u = "exampleCollaborators ?good" and mode = mode, THEN conjunct1]
      read_example [of ?good "()" "state exampleInfo"]
    by (rule mp)
  have b: "decodeValue (exampleCollaborators ?bad) (UintType 8) () exampleInfo Normal =
        Inr (UintErrorResult (UintType 8)
               (UintPaddingError (toHexString (exampleCollaborators ?bad) ?bad)))
      \<and> decodeValue (exampleCollaborators ?bad) (UintType 8) () exampleInfo Strict
          = Inl StopDecodingError
      \<and> decodeValue (exampleCollaborators ?bad) (UintType 8) () exampleInfo Permissive
          = Inr (UintValue (UintType 8) 255)"
    using T [where u = "exampleCollaborators ?bad", THEN conjunct2] read_example [of ?bad "()" "state exampleInfo"]
    by (rule mp)
  from g [of Normal] g [of Permissive] g [of Strict] b show ?thesis
    by (simp only: toHexString_example simp_thms)
qed

text \<open>
  Claim C7 at the example collaborators.
\<close>

theorem bool_two_out_of_range_witness:
  "decodeValue (exampleCollaborators (replicate 31 0 @ [0x02])) BoolType () exampleInfo Normal =
     Inr (BoolErrorResult BoolType (BoolOutOfRangeError 2))
   \<and> decodeValue (exampleCollaborators (replicate 31 0 @ [0x02])) BoolType () exampleInfo
       Permissive = Inr (BoolErrorResult BoolType (BoolOutOfRangeError 2))
   \<and> decodeValue (exampleCollaborators (replicate 31 0 @ [0x02])) BoolType () exampleInfo
       Strict = Inl StopDecodingError"
proof -
  let ?two = "replicate 31 0 @ [0x02 :: byte]"
  have "checkPaddingLeft ?two (Idx 1)
     \<and> toBN ?two = 2
     \<and> decodeValue (exampleCollaborators ?two) BoolType () exampleInfo Normal =
         Inr (BoolErrorResult BoolType (BoolOutOfRangeError 2))
     \<and> decodeValue (exampleCollaborators ?two) BoolType () exampleInfo Permissive =
         Inr (BoolErrorResult BoolType (BoolOutOfRangeError 2))
     \<and> decodeValue (exampleCollaborators ?two) BoolType () exampleInfo Strict
         = Inl StopDecodingError"
    using bool_two_out_of_range [where u = "exampleCollaborators ?two" and p = "()"
        and info = exampleInfo] read_example [of ?two "()" "state exampleInfo"]
    by (rule mp)
  then show ?thesis by (simp only: simp_thms)
qed

lemma argumentLimit_example: "argumentLimit (exampleCollaborators bs) = 125000"
  by (simp add: exampleCollaborators_def)

lemma string_invalid_bytes:
  "decodeValue (exampleCollaborators [0x41, 0xFF, 0x42]) StringType () exampleInfo mode
     = Inr (StringValue StringType [0x41, 0xFF, 0x42])"
  by (simp add: decodeValue_string [OF read_example] argumentLimit_example)

text \<open>
  Claim C8 fails on the code at a long input: a string of 200000 bytes has more bytes
  than the example engine accepts as arguments, and the decode throws a RangeError in
  every mode instead of returning a \<open>StringValue\<close>.
\<close>

theorem string_long_input_throws:
  "decodeValue (exampleCollaborators (replicate 200000 0x41)) StringType () exampleInfo Normal
     = Inl RangeError
   \<and> decodeValue (exampleCollaborators (replicate 200000 0x41)) StringType () exampleInfo
       Permissive = Inl RangeError
   \<and> decodeValue (exampleCollaborators (replicate 200000 0x41)) StringType () exampleInfo
       Strict = Inl RangeError"
proof -
  have "argumentLimit (exampleCollaborators bs) < length (replicate 200000 (0x41 :: byte))"
    for bs
    by (simp add: argumentLimit_example)
  then show ?thesis
    by (simp only: decodeValue_string [OF read_example] if_True simp_thms)
qed

text \<open>
  Claim C9 at the bytes 0x01, 0x80.
\<close>

theorem fixed_not_yet_supported_witness:
  "decodeValue (exampleCollaborators [0x01, 0x80]) FixedType () exampleInfo Normal =
     Inr (FixedErrorResult FixedType (FixedPointNotYetSupportedError (hexOf [0x01, 0x80])))
   \<and> decodeValue (exampleCollaborators [0x01, 0x80]) UfixedType () exampleInfo Permissive =
     Inr (UfixedErrorResult UfixedType (FixedPointNotYetSupportedError (hexOf [0x01, 0x80])))
   \<and> decodeValue (exampleCollaborators [0x01, 0x80]) FixedType () exampleInfo Strict =
     Inl StopDecodingError
   \<and> decodeValue (exampleCollaborators [0x01, 0x80]) UfixedType () exampleInfo Strict =
     Inl StopDecodingError"
proof -
  let ?b = "[0x01, 0x80 :: byte]"
  have F: "decodeValue (exampleCollaborators ?b) FixedType () exampleInfo mode =
       (if mode = Strict then Inl StopDecodingError
        else Inr (FixedErrorResult FixedType
                    (FixedPointNotYetSupportedError (toHexString (exampleCollaborators ?b) ?b))))
     \<and> decodeValue (exampleCollaborators ?b) UfixedType () exampleInfo mode =
       (if mode = Strict then Inl StopDecodingError
        else Inr (UfixedErrorResult UfixedType
                    (FixedPointNotYetSupportedError (toHexString (exampleCollaborators ?b) ?b))))"
    for mode
    using fixed_not_yet_supported [where u = "exampleCollaborators ?b" and p = "()"
        and info = exampleInfo and bs = ?b and mode = mode] read_example [of ?b "()" "state exampleInfo"]
    by (rule mp)
  from F [of Normal] F [of Permissive] F [of Strict] show ?thesis
    by (simp add: toHexString_example)
qed

text \<open>
  Claim C10, amended, at the number 0 in strict mode and at the number 1 in normal mode.
\<close>

theorem one_option_enum_witness:
  "decodeValue (exampleCollaborators (replicate 32 0)) (EnumType oneOptionEnum) () exampleInfo
       Strict = Inr (EnumValue oneOptionEnum 0 ''Only'')
   \<and> decodeValue (exampleCollaborators (replicate 31 0 @ [0x01])) (EnumType oneOptionEnum) ()
       exampleInfo Normal =
         Inr (EnumErrorResult oneOptionEnum (EnumOutOfRangeError oneOptionEnum 1))
   \<and> checkPaddingLeft (replicate 31 0 @ [0x01]) (enumNumBytes 1)"
proof -
  let ?zero = "replicate 32 (0 :: byte)"
  let ?one = "replicate 31 0 @ [0x01 :: byte]"
  have h: "read (exampleCollaborators bs) () (state exampleInfo) = Inr bs
      \<and> fullTypeEnum (exampleCollaborators bs) oneOptionEnum (userDefinedTypes exampleInfo)
          = oneOptionEnum
      \<and> options oneOptionEnum = Some [''Only'']" for bs
  proof -
    have "options oneOptionEnum = Some [''Only'']"
      by (simp add: oneOptionEnum_def)
    then show ?thesis
      by (intro conjI read_example fullTypeEnum_example)
  qed
  have E: "enumNumBytes (length [''Only'']) = Idx 0
     \<and> checkPaddingLeft bs (enumNumBytes (length [''Only'']))
     \<and> decodeValue (exampleCollaborators bs) (EnumType oneOptionEnum) () exampleInfo mode =
         (if toBN bs = 0 then Inr (EnumValue oneOptionEnum 0 ''Only'')
          else if mode = Strict then Inl StopDecodingError
          else Inr (EnumErrorResult oneOptionEnum (EnumOutOfRangeError oneOptionEnum (toBN bs))))
     \<and> (\<forall>r. decodeValue (exampleCollaborators bs) (EnumType oneOptionEnum) () exampleInfo mode
            = Inr r \<longrightarrow> \<not> isPaddingErrorResult r)" for bs mode
    using one_option_enum [where u = "exampleCollaborators bs" and p = "()"
        and info = exampleInfo and bs = bs and et = oneOptionEnum and ft = oneOptionEnum
        and opt = "''Only''" and mode = mode] h [of bs]
    by (rule mp)
  from E [of ?zero Strict] E [of ?one Normal] show ?thesis
    by (simp add: enum_inputs)
qed

lemma value_or_error: "isValue r \<or> isErrorResult r"
  by (cases r) simp_all

lemma value_not_error: "isValue r \<Longrightarrow> \<not> isErrorResult r"
  by (cases r) simp_all

lemma decodeInternalFunction_errors:
  "decodeInternalFunction dataType d c info = Inr r \<Longrightarrow> isErrorResult r \<Longrightarrow>
   isResolverErrorResult r"
  by (auto simp add: decodeInternalFunction_def Let_def isResolverErrorResult_def
      split: option.splits if_splits sum.splits)

text \<open>
  The program counters that \<^verbatim>\<open>decodeValue\<close> cuts from the bytes have at most four
  bytes each, so \<^verbatim>\<open>toNumber\<close> never fails on them.
\<close>

lemma pc_slices_short:
  "length (sliceFrom bs (Idx (- PC_SIZE))) \<le> 4"
  "length (slice_js bs (Idx (- PC_SIZE * 2)) (Idx (- PC_SIZE))) \<le> 4"
  by (auto simp add: sliceFrom_def slice_js_def relativeIndex_def PC_SIZE_def Let_def)

lemma decodeInternalFunction_returns:
  "length d \<le> 4 \<Longrightarrow> length c \<le> 4 \<Longrightarrow>
   \<exists>r. decodeInternalFunction dataType d c info = Inr r"
  using toBN_four_bytes [of d] toBN_four_bytes [of c]
  by (auto simp add: decodeInternalFunction_def toNumber_def Let_def split: option.splits)

lemma decodeExternalFunction_returns:
  assumes "registryConsistent u info"
  shows "\<exists>v. decodeExternalFunction u a s info = Inr v"
proof (cases "decodeContract u a info")
  case (ContractValueInfoUnknown addr)
  then show ?thesis
    by (simp add: decodeExternalFunction_def)
next
  case (ContractValueInfoKnown addr cls)
  then obtain c where c: "findDecoderContext u (contexts info) (toHexString u (codeAt u (toAddress u a))) = Some c"
    and cls: "cls = contextToType u c"
    by (auto simp add: decodeContract_def Let_def split: option.splits if_splits)
  from assms c obtain c' where "c' \<in> set (Object_values (contexts info))"
    and "contractId c' = type_id (contextToType u c)"
    unfolding registryConsistent_def by blast
  then have "find (\<lambda>context. contractId context = type_id cls) (Object_values (contexts info)) \<noteq> None"
    using cls by (auto simp add: find_None_iff)
  then obtain ctx where "find (\<lambda>context. contractId context = type_id cls)
      (Object_values (contexts info)) = Some ctx"
    by auto
  with ContractValueInfoKnown show ?thesis
    by (auto simp add: decodeExternalFunction_def Let_def split: option.splits)
qed

lemma decodeValue_failed_read:
  "read u p (state info) = Inl e \<Longrightarrow>
   decodeValue u dataType p info mode =
     (if mode = Strict then Inl StopDecodingError else Inr (GenericErrorResult dataType e))"
  by (simp add: decodeValue_def)

subsection \<open>What the modes guarantee\<close>

lemma decodeInternalFunction_no_abort:
  "decodeInternalFunction dataType d c info \<noteq> Inl StopDecodingError"
  by (auto simp add: decodeInternalFunction_def toNumber_def Let_def
      split: option.splits sum.splits)

text \<open>Normal and permissive mode never throw the abort.\<close>

lemma never_aborts:
  assumes "mode \<noteq> Strict"
  shows "decodeValue u dataType p info mode \<noteq> Inl StopDecodingError"
proof (cases "read u p (state info)")
  case (Inl e)
  with assms show ?thesis by (simp add: decodeValue_failed_read)
next
  case (Inr bs)
  show ?thesis
  proof (cases "dataType = FunctionType Internal")
    case True
    with Inr assms show ?thesis
      by (simp add: decodeValue_def Let_def decodeInternalFunction_no_abort)
  next
    case False
    with Inr assms show ?thesis
      by (cases dataType)
        (auto simp add: decodeValue_def Let_def decodeExternalFunction_def fromCharCode_def
          split: option.splits sum.splits bytesKind.splits visibility.splits
            contractValueInfo.splits)
  qed
qed

text \<open>
  With a consistent registry, and for a string within the engine's argument limit,
  normal and permissive mode return a result.
\<close>

lemma always_returns:
  assumes "mode \<noteq> Strict" and "registryConsistent u info"
    and "\<And>bs. dataType = StringType \<Longrightarrow> read u p (state info) = Inr bs
           \<Longrightarrow> length bs \<le> argumentLimit u"
  shows "\<exists>r. decodeValue u dataType p info mode = Inr r"
proof (cases "read u p (state info)")
  case (Inl e)
  with assms(1) show ?thesis by (simp add: decodeValue_failed_read)
next
  case (Inr bs)
  consider (ext) "dataType = FunctionType External" | (int) "dataType = FunctionType Internal"
    | (str) "dataType = StringType"
    | (other) "dataType \<noteq> FunctionType External" "dataType \<noteq> FunctionType Internal"
        "dataType \<noteq> StringType"
    by blast
  then show ?thesis
  proof cases
    case ext
    obtain v where "decodeExternalFunction u (slice_js bs (Idx 0) (Idx ADDRESS_SIZE))
        (slice_js bs (Idx ADDRESS_SIZE) (Idx (ADDRESS_SIZE + SELECTOR_SIZE))) info = Inr v"
      using decodeExternalFunction_returns [OF assms(2)] by blast
    with Inr ext assms(1) show ?thesis
      by (simp add: decodeValue_def Let_def)
  next
    case int
    obtain r where "decodeInternalFunction dataType (sliceFrom bs (Idx (- PC_SIZE)))
        (slice_js bs (Idx (- PC_SIZE * 2)) (Idx (- PC_SIZE))) info = Inr r"
      using decodeInternalFunction_returns [OF pc_slices_short] by blast
    with Inr int assms(1) show ?thesis
      by (simp add: decodeValue_def Let_def)
  next
    case str
    with Inr assms(3) have "length bs \<le> argumentLimit u" by simp
    with Inr str show ?thesis
      by (simp add: decodeValue_string)
  next
    case other
    with Inr assms(1) show ?thesis
      by (cases dataType)
        (auto simp add: decodeValue_def Let_def
          split: option.splits bytesKind.splits visibility.splits)
  qed
qed

text \<open>
  Strict mode returns a value of normal mode unchanged, and turns every error result of
  normal mode into the abort, the three errors of the internal function resolver apart.
\<close>

lemma strict_of_normal:
  assumes "decodeValue u dataType p info Normal = Inr r"
  shows "(isValue r \<longrightarrow> decodeValue u dataType p info Strict = Inr r)
    \<and> (isErrorResult r \<and> \<not> isResolverErrorResult r \<longrightarrow>
          decodeValue u dataType p info Strict = Inl StopDecodingError)"
proof (cases "read u p (state info)")
  case (Inl e)
  with assms show ?thesis by (auto simp add: decodeValue_failed_read)
next
  case (Inr bs)
  show ?thesis
  proof (cases "dataType = FunctionType Internal")
    case True
    show ?thesis
    proof (cases "checkPaddingLeft bs (Idx (2 * PC_SIZE))")
      case False
      with Inr True assms show ?thesis
        by (auto simp add: decodeValue_def Let_def)
    next
      case pad: True
      let ?r = "decodeInternalFunction dataType (sliceFrom bs (Idx (- PC_SIZE)))
          (slice_js bs (Idx (- PC_SIZE * 2)) (Idx (- PC_SIZE))) info"
      from Inr True pad have "decodeValue u dataType p info Normal = ?r"
        and s: "decodeValue u dataType p info Strict = ?r"
        by (simp_all add: decodeValue_def Let_def)
      with assms have r: "?r = Inr r" by simp
      show ?thesis
        using s r decodeInternalFunction_errors [OF r] by auto
    qed
  next
    case False
    with Inr assms show ?thesis
      by (cases dataType)
        (auto simp add: decodeValue_def Let_def isResolverErrorResult_def fromCharCode_def
          split: option.splits sum.splits bytesKind.splits visibility.splits if_splits)
  qed
qed

text \<open>
  Whatever strict mode returns is a value or one of the three resolver errors.
\<close>

lemma strict_results:
  assumes "decodeValue u dataType p info Strict = Inr r"
  shows "isValue r \<or> isResolverErrorResult r"
proof (cases "read u p (state info)")
  case (Inl e)
  with assms show ?thesis by (simp add: decodeValue_failed_read)
next
  case (Inr bs)
  show ?thesis
  proof (cases "dataType = FunctionType Internal")
    case True
    with Inr assms obtain d c where "decodeInternalFunction dataType d c info = Inr r"
      by (auto simp add: decodeValue_def Let_def split: if_splits)
    then show ?thesis
      using decodeInternalFunction_errors [of dataType d c info r] value_or_error [of r]
      by auto
  next
    case False
    with Inr assms show ?thesis
      by (cases dataType)
        (auto simp add: decodeValue_def Let_def fromCharCode_def
          split: option.splits sum.splits bytesKind.splits visibility.splits if_splits)
  qed
qed

text \<open>
  Claim C4 fails on the code in strict mode: a malformed internal function pointer
  (deployed counter 0, constructor counter 7) is returned as an embedded error result;
  the decode does not abort.
\<close>

theorem strict_embeds_resolver_error:
  "decodeValue (exampleCollaborators (replicate 24 0 @ [0, 0, 0, 7, 0, 0, 0, 0]))
       (FunctionType Internal) () exampleInfoWithTable Strict =
     Inr (FunctionInternalErrorResult (FunctionType Internal)
            (MalformedInternalFunctionError
               \<lparr> type_id = 7, typeName = Some ''Token'', type_contractKind = ''contract'',
                 type_payable = False \<rparr> 7))
   \<and> isErrorResult
       (FunctionInternalErrorResult (FunctionType Internal)
          (MalformedInternalFunctionError
             \<lparr> type_id = 7, typeName = Some ''Token'', type_contractKind = ''contract'',
               type_payable = False \<rparr> 7))
   \<and> decodeValue (exampleCollaborators (replicate 24 0 @ [0, 0, 0, 7, 0, 0, 0, 0]))
       (FunctionType Internal) () exampleInfoWithTable Strict \<noteq> Inl StopDecodingError"
proof -
  let ?bs = "replicate 24 0 @ [0, 0, 0, 7, 0, 0, 0, 0 :: byte]"
  have sl: "checkPaddingLeft ?bs (Idx (2 * PC_SIZE))"
    "sliceFrom ?bs (Idx (- PC_SIZE)) = [0, 0, 0, 0]"
    "slice_js ?bs (Idx (- PC_SIZE * 2)) (Idx (- PC_SIZE)) = [0, 0, 0, 7]"
    "slice_js ?bs (Idx (- (PC_SIZE * 2))) (Idx (- PC_SIZE)) = [0, 0, 0, 7]"
    by code_simp+
  have "decodeValue (exampleCollaborators ?bs) (FunctionType Internal) () exampleInfoWithTable
      Strict = decodeInternalFunction (FunctionType Internal) [0, 0, 0, 0] [0, 0, 0, 7]
        exampleInfoWithTable"
    by (simp add: decodeValue_def read_example sl)
  then show ?thesis
    by (simp add: decodeInternalFunction_def toNumber_def toBN_zeros4 toBN_examples
        exampleInfoWithTable_def exampleInfo_def tokenContext_def)
qed

subsection \<open>Permissive mode\<close>

lemma permissive_values:
  "read u p (state info) = Inr bs \<Longrightarrow> permissiveClass dataType \<Longrightarrow>
   \<exists>v. decodeValue u dataType p info Permissive = Inr v \<and> isValue v"
  by (cases dataType) (auto simp add: decodeValue_def Let_def split: bytesKind.splits)

lemma permissive_of_normal:
  assumes "\<forall>r. decodeValue u dataType p info Normal = Inr r \<longrightarrow> \<not> isPaddingErrorResult r"
  shows "decodeValue u dataType p info Permissive = decodeValue u dataType p info Normal"
proof (cases "read u p (state info)")
  case (Inl e)
  then show ?thesis by (simp add: decodeValue_failed_read)
next
  case (Inr bs)
  with assms show ?thesis
    by (cases dataType)
      (auto simp add: decodeValue_def Let_def isPaddingErrorResult_def
        split: option.splits sum.splits bytesKind.splits visibility.splits if_splits)
qed


text \<open>
  Claim C2, amended. In permissive mode a uint, int, address, contract or bytes type
  decodes to a value for all bytes read, so these classes give no padding error; and
  whenever normal mode gives no padding error, permissive mode gives the result of normal
  mode, so the out-of-range and structural checks are the same.
\<close>

theorem permissive_padding:
  "(read u p (state info) = Inr bs \<and> permissiveClass dataType \<longrightarrow>
      (\<exists>v. decodeValue u dataType p info Permissive = Inr v \<and> isValue v
         \<and> \<not> isPaddingErrorResult v))
   \<and> ((\<forall>r. decodeValue u dataType p info Normal = Inr r \<longrightarrow> \<not> isPaddingErrorResult r) \<longrightarrow>
        decodeValue u dataType p info Permissive = decodeValue u dataType p info Normal)"
proof -
  have "isValue v \<Longrightarrow> \<not> isPaddingErrorResult v" for v
    by (cases v) (simp_all add: isPaddingErrorResult_def)
  then show ?thesis
    using permissive_values [of u p info bs dataType] permissive_of_normal [of u dataType p info]
    by blast
qed

text \<open>
  Claim C2 as stated fails: in permissive mode a bool read from bytes with a nonzero
  padding byte is a \<open>BoolPaddingError\<close>.
\<close>

theorem permissive_bool_padding_error:
  "decodeValue (exampleCollaborators (replicate 30 0 @ [0x01, 0x00])) BoolType () exampleInfo
       Permissive =
     Inr (BoolErrorResult BoolType (BoolPaddingError (hexOf (replicate 30 0 @ [0x01, 0x00]))))
   \<and> isPaddingErrorResult
       (BoolErrorResult BoolType (BoolPaddingError (hexOf (replicate 30 0 @ [0x01, 0x00]))))"
proof -
  have "\<not> checkPaddingLeft (replicate 30 0 @ [0x01, 0x00]) (Idx 1)"
    by code_simp
  then show ?thesis
    using decodeValue_bool [of "exampleCollaborators (replicate 30 0 @ [0x01, 0x00])" "()"
        exampleInfo "replicate 30 0 @ [0x01, 0x00]" Permissive]
    by (simp add: read_example toHexString_example isPaddingErrorResult_def)
qed


lemma registryConsistent_example: "registryConsistent (exampleCollaborators bs) exampleInfo"
  by (simp add: registryConsistent_def exampleCollaborators_def exampleInfo_def
      Object_values_def)

lemma uint8_runs:
  "decodeValue (exampleCollaborators (replicate 30 0 @ [0x01, 0xFF])) (UintType 8) () exampleInfo
     Normal = Inr (UintErrorResult (UintType 8)
                (UintPaddingError (hexOf (replicate 30 0 @ [0x01, 0xFF]))))"
  "decodeValue (exampleCollaborators (replicate 31 0 @ [0xFF])) (UintType 8) () exampleInfo
     Normal = Inr (UintValue (UintType 8) 255)"
  "decodeValue (exampleCollaborators (replicate 31 0 @ [0xFF])) (UintType 8) () exampleInfo
     Strict = Inr (UintValue (UintType 8) 255)"
  by (simp_all add: decodeValue_uint [OF read_example] uint8_inputs toHexString_example)

lemma bool_two_run:
  "decodeValue (exampleCollaborators (replicate 31 0 @ [0x02])) BoolType () exampleInfo Normal
     = Inr (BoolErrorResult BoolType (BoolOutOfRangeError 2))"
  by (simp add: decodeValue_bool [OF read_example] bool_inputs)

text \<open>
  Claim C2, amended, at a uint8 with a nonzero padding byte and at the bool of number 2.
\<close>

theorem permissive_padding_witness:
  "(\<exists>v. decodeValue (exampleCollaborators (replicate 30 0 @ [0x01, 0xFF])) (UintType 8) ()
          exampleInfo Permissive = Inr v \<and> isValue v \<and> \<not> isPaddingErrorResult v)
   \<and> decodeValue (exampleCollaborators (replicate 31 0 @ [0x02])) BoolType () exampleInfo
       Permissive =
     decodeValue (exampleCollaborators (replicate 31 0 @ [0x02])) BoolType () exampleInfo Normal"
proof -
  let ?bad = "replicate 30 0 @ [0x01, 0xFF :: byte]"
  let ?two = "replicate 31 0 @ [0x02 :: byte]"
  have h: "read (exampleCollaborators ?bad) () (state exampleInfo) = Inr ?bad
      \<and> permissiveClass (UintType 8)"
    by (simp add: read_example)
  have n: "\<forall>r. decodeValue (exampleCollaborators ?two) BoolType () exampleInfo Normal = Inr r
      \<longrightarrow> \<not> isPaddingErrorResult r"
    by (simp add: bool_two_run isPaddingErrorResult_def)
  from permissive_padding [where u = "exampleCollaborators ?bad" and p = "()"
      and info = exampleInfo and bs = ?bad and dataType = "UintType 8", THEN conjunct1] h
  have 1: "\<exists>v. decodeValue (exampleCollaborators ?bad) (UintType 8) () exampleInfo Permissive
      = Inr v \<and> isValue v \<and> \<not> isPaddingErrorResult v"
    by (rule mp)
  from permissive_padding [where u = "exampleCollaborators ?two" and p = "()"
      and info = exampleInfo and dataType = BoolType, THEN conjunct2] n
  have 2: "decodeValue (exampleCollaborators ?two) BoolType () exampleInfo Permissive =
      decodeValue (exampleCollaborators ?two) BoolType () exampleInfo Normal"
    by (rule mp)
  from 1 2 show ?thesis
    by (rule conjI)
qed

subsection \<open>The padding width of an enum\<close>

text \<open>
  \<open>ceilLog256\<close> is the rounded-up logarithm that \<^verbatim>\<open>decodeValue\<close> computes with
  \<^verbatim>\<open>Math.ceil(Math.log2(numOptions) / 8)\<close>: the least number of bytes that can count
  the options.
\<close>

lemma ceilLog256_upper: "0 < n \<Longrightarrow> n \<le> 256 ^ ceilLog256 n"
proof (induction n rule: ceilLog256.induct)
  case (1 n)
  show ?case
  proof (cases "n \<le> 1")
    case True
    then show ?thesis by (simp add: ceilLog256.simps [of n])
  next
    case False
    let ?m = "(n + 255) div 256"
    from False have "0 < ?m" by simp
    with 1 False have "?m \<le> 256 ^ ceilLog256 ?m" by simp
    moreover have "n \<le> 256 * ?m" by simp
    ultimately have "n \<le> 256 * 256 ^ ceilLog256 ?m"
      by (meson le_trans mult_le_mono2)
    with False show ?thesis by (simp add: ceilLog256.simps [of n])
  qed
qed

lemma ceilLog256_lower: "ceilLog256 n = Suc k \<Longrightarrow> 256 ^ k < n"
proof (induction n arbitrary: k rule: ceilLog256.induct)
  case (1 n)
  from "1.prems" have big: "\<not> n \<le> 1"
    by (simp add: ceilLog256.simps [of n] split: if_splits)
  let ?m = "(n + 255) div 256"
  from "1.prems" big have k: "ceilLog256 ?m = k"
    by (simp add: ceilLog256.simps [of n])
  show ?case
  proof (cases k)
    case 0
    with big show ?thesis by simp
  next
    case (Suc j)
    with k "1.IH" big have "256 ^ j < ?m" by simp
    then have "256 * 256 ^ j + 256 \<le> n + 255" by simp
    with Suc show ?thesis by simp
  qed
qed

end
